theory Spec2Isabelle
  imports Main "HOL-Library.Sublist"
begin

section \<open>The runtime configuration loader (ConfigService)\<close>

subsection \<open>Values the service handles\<close>

text \<open>
  The HTTP client hands the service whatever the JSON body of
  \<^verbatim>\<open>/assets/config/environment.json\<close> parses to; the TypeScript type
  \<^verbatim>\<open>EnvironmentConfig\<close> is erased at run time, so the model keeps the untyped value.
  An object is the list of its own properties, read with \<open>map_of\<close>. A number is carried
  as the text that the language's number-to-string conversion gives for it: the service
  never computes with a number, it only converts one to a string or tests it for zero.
\<close>

datatype json =
    JNull
  | JBool bool
  | JNum string
  | JStr string
  | JArr "json list"
  | JObj "(string \<times> json) list"

text \<open>What a \<^verbatim>\<open>throw\<close> can carry in this service.\<close>

datatype http_failure = NetworkError | BadStatus nat | ParseError

datatype thrown =
    Error string
  | TypeError
  | HttpErrorResponse http_failure

datatype console = ConsoleWarn string | ConsoleError string thrown

datatype http_result = HttpFailure http_failure | HttpBody json

text \<open>
  \<^verbatim>\<open>config[field]\<close> for the field names the service reads (\<open>name\<close>, \<open>production\<close>,
  \<open>apiUrl\<close>, \<open>authUrl\<close>, \<open>features\<close>): reading a property of \<^verbatim>\<open>null\<close> throws a
  TypeError; none of these names is a property of a built-in prototype, so every value
  that is not an object, and every object without such an own property, gives
  \<^verbatim>\<open>undefined\<close> (\<open>None\<close>).
\<close>

fun get_field :: "json \<Rightarrow> string \<Rightarrow> thrown + json option" where
  "get_field JNull field = Inl TypeError"
| "get_field (JObj kvs) field = Inr (map_of kvs field)"
| "get_field (JBool b) field = Inr None"
| "get_field (JNum r) field = Inr None"
| "get_field (JStr s) field = Inr None"
| "get_field (JArr xs) field = Inr None"

text \<open>
  The string conversion that a template literal and the \<^verbatim>\<open>URL\<close> constructor apply to
  their argument. An array joins the conversions of its elements with commas, a
  \<^verbatim>\<open>null\<close> element giving the empty string. An object gives \<^verbatim>\<open>[object Object]\<close>,
  unless it has an own property \<open>toString\<close>: a JSON value is never callable, the
  inherited \<^verbatim>\<open>valueOf\<close> returns the object itself, and the conversion throws a
  TypeError (\<open>None\<close>).
\<close>

fun join_with :: "string \<Rightarrow> string list \<Rightarrow> string" where
  "join_with sep [] = []"
| "join_with sep [x] = x"
| "join_with sep (x # y # ys) = x @ sep @ join_with sep (y # ys)"

fun sequence_opt :: "'a option list \<Rightarrow> 'a list option" where
  "sequence_opt [] = Some []"
| "sequence_opt (None # xs) = None"
| "sequence_opt (Some x # xs) = map_option (\<lambda>ys. x # ys) (sequence_opt xs)"

fun ToString :: "json \<Rightarrow> string option" where
  "ToString JNull = Some ''null''"
| "ToString (JBool b) = Some (if b then ''true'' else ''false'')"
| "ToString (JNum r) = Some r"
| "ToString (JStr s) = Some s"
| "ToString (JArr xs) =
     map_option (join_with '','')
       (sequence_opt (map (\<lambda>x. if x = JNull then Some [] else ToString x) xs))"
| "ToString (JObj kvs) =
     (if map_of kvs ''toString'' \<noteq> None then None else Some ''[object Object]'')"

definition ToString_value :: "json option \<Rightarrow> string option" where
  "ToString_value v = (case v of None \<Rightarrow> Some ''undefined'' | Some j \<Rightarrow> ToString j)"

text \<open>\<^verbatim>\<open>!value\<close>: the values that count as false in a condition.\<close>

fun falsy :: "json \<Rightarrow> bool" where
  "falsy JNull = True"
| "falsy (JBool b) = (\<not> b)"
| "falsy (JNum r) = (r = ''0'' \<or> r = ''NaN'')"
| "falsy (JStr s) = (s = [])"
| "falsy (JArr xs) = False"
| "falsy (JObj kvs) = False"

subsection \<open>The service\<close>

text \<open>
  \<^verbatim>\<open>private config: EnvironmentConfig | null = null\<close> is the whole state.
  The URL parser of the platform is not part of the repository: \<open>url_parses s\<close> says
  whether \<^verbatim>\<open>new URL(s)\<close> returns rather than throws, and is a parameter throughout.
\<close>

record config_service =
  config :: json

definition new_service :: config_service where
  "new_service = \<lparr>config = JNull\<rparr>"

definition requiredFields :: "string list" where
  "requiredFields = [''name'', ''production'', ''apiUrl'', ''authUrl'', ''features'']"

definition isValidUrl :: "(string \<Rightarrow> bool) \<Rightarrow> json option \<Rightarrow> bool" where
  "isValidUrl url_parses url =
     (case ToString_value url of None \<Rightarrow> False | Some s \<Rightarrow> url_parses s)"

text \<open>The \<^verbatim>\<open>for (const field of requiredFields)\<close> loop of \<^verbatim>\<open>validateConfig\<close>.\<close>

fun check_required :: "json \<Rightarrow> string list \<Rightarrow> thrown + unit" where
  "check_required cfg [] = Inr ()"
| "check_required cfg (field # rest) =
     (case get_field cfg field of
        Inl e \<Rightarrow> Inl e
      | Inr v \<Rightarrow>
          if v = None \<or> v = Some JNull
          then Inl (Error (''Missing required configuration field: '' @ field))
          else check_required cfg rest)"

text \<open>\<^verbatim>\<open>throw new Error(`<prefix>${value}`)\<close>: building the message may itself throw.\<close>

definition throw_with_value :: "string \<Rightarrow> json option \<Rightarrow> thrown" where
  "throw_with_value pre v =
     (case ToString_value v of None \<Rightarrow> TypeError | Some s \<Rightarrow> Error (pre @ s))"

definition validateConfig :: "(string \<Rightarrow> bool) \<Rightarrow> json \<Rightarrow> thrown + console list" where
  "validateConfig url_parses cfg =
     (case check_required cfg requiredFields of
        Inl e \<Rightarrow> Inl e
      | Inr _ \<Rightarrow>
         (case get_field cfg ''apiUrl'' of
            Inl e \<Rightarrow> Inl e
          | Inr api \<Rightarrow>
             if \<not> isValidUrl url_parses api
             then Inl (throw_with_value ''Invalid API URL: '' api)
             else
              (case get_field cfg ''authUrl'' of
                 Inl e \<Rightarrow> Inl e
               | Inr auth \<Rightarrow>
                  if \<not> isValidUrl url_parses auth
                  then Inl (throw_with_value ''Invalid Auth URL: '' auth)
                  else Inr [ConsoleWarn ''[ConfigService] Configuration validation passed''])))"

text \<open>
  \<^verbatim>\<open>loadConfig\<close>: the result of the HTTP request is the input; the outcome is the
  service afterwards, what was written to the console, and how the promise settled.
  The assignment to \<^verbatim>\<open>this.config\<close> comes first, as in the source; everything
  thrown inside the \<^verbatim>\<open>try\<close> is logged and replaced by one fixed error.
\<close>

record load_outcome =
  service :: config_service
  logged :: "console list"
  settled :: "thrown + unit"

definition load_failed :: "config_service \<Rightarrow> console list \<Rightarrow> thrown \<Rightarrow> load_outcome" where
  "load_failed s earlier e =
     \<lparr>service = s,
      logged = earlier @ [ConsoleError ''[ConfigService] Failed to load configuration:'' e],
      settled = Inl (Error ''Failed to load application configuration'')\<rparr>"

definition loadConfig :: "(string \<Rightarrow> bool) \<Rightarrow> http_result \<Rightarrow> config_service \<Rightarrow> load_outcome" where
  "loadConfig url_parses response s =
     (case response of
        HttpFailure f \<Rightarrow> load_failed s [] (HttpErrorResponse f)
      | HttpBody body \<Rightarrow>
         (let s' = s\<lparr>config := body\<rparr> in
          case validateConfig url_parses (config s') of
            Inl e \<Rightarrow> load_failed s' [] e
          | Inr msgs \<Rightarrow>
             (case get_field (config s') ''name'' of
                Inl e \<Rightarrow> load_failed s' msgs e
              | Inr n \<Rightarrow>
                 (case ToString_value n of
                    None \<Rightarrow> load_failed s' msgs TypeError
                  | Some txt \<Rightarrow>
                     \<lparr>service = s',
                      logged = msgs @
                        [ConsoleWarn (''[ConfigService] Configuration loaded for environment: '' @ txt)],
                      settled = Inr ()\<rparr>))))"

definition getConfig :: "config_service \<Rightarrow> thrown + json" where
  "getConfig s =
     (if falsy (config s)
      then Inl (Error ''Configuration not loaded. APP_INITIALIZER may have failed.'')
      else Inr (config s))"

text \<open>
  The getters read one property of what \<^verbatim>\<open>getConfig\<close> returns, which is never
  \<^verbatim>\<open>null\<close> there.
\<close>

definition getter :: "string \<Rightarrow> config_service \<Rightarrow> thrown + json option" where
  "getter field s = (case getConfig s of Inl e \<Rightarrow> Inl e | Inr c \<Rightarrow> get_field c field)"

definition apiUrl :: "config_service \<Rightarrow> thrown + json option" where
  "apiUrl = getter ''apiUrl''"

definition authUrl :: "config_service \<Rightarrow> thrown + json option" where
  "authUrl = getter ''authUrl''"

definition isProduction :: "config_service \<Rightarrow> thrown + json option" where
  "isProduction = getter ''production''"

definition environmentName :: "config_service \<Rightarrow> thrown + json option" where
  "environmentName = getter ''name''"

definition features :: "config_service \<Rightarrow> thrown + json option" where
  "features = getter ''features''"

section \<open>The deployment scripts (deploy.mjs and deploy.sh)\<close>

subsection \<open>Files, commands and what a run leaves behind\<close>

text \<open>
  A file tree maps a path to a regular file with its content or to a directory.
  The build tool and the AWS command line are programs outside the repository: a run
  starts them through the shell, which is the parameter \<open>exec\<close>, taking the command
  line, the environment variables the program is started with and the file tree it runs
  against to an exit status and the tree afterwards. Every such invocation is recorded,
  with the environment and the tree it saw, in \<open>calls\<close>.

  Of the console output the model keeps the lines that report a step, a warning or an
  error, without colour codes and emoji; the banner, blank lines, the usage text and the
  closing summary with the site addresses are left out.
\<close>

datatype node = File string | Dir

type_synonym tree = "string \<Rightarrow> node option"

type_synonym process_env = "string \<Rightarrow> string option"

type_synonym shell = "string \<Rightarrow> process_env \<Rightarrow> tree \<Rightarrow> nat \<times> tree"

record outcome =
  status :: nat
  printed :: "string list"
  calls :: "(string \<times> process_env \<times> tree) list"
  files :: tree

definition finish ::
  "nat \<Rightarrow> string list \<Rightarrow> (string \<times> process_env \<times> tree) list \<Rightarrow> tree \<Rightarrow> outcome" where
  "finish code lines cs t = \<lparr>status = code, printed = lines, calls = cs, files = t\<rparr>"


definition validEnvironments :: "string list" where
  "validEnvironments = [''dev'', ''qa'', ''staging'', ''prod'']"

definition quoted :: "string \<Rightarrow> string" where
  "quoted s = [CHR 0x27] @ s @ [CHR 0x27]"

definition double_quoted :: "string \<Rightarrow> string" where
  "double_quoted s = [CHR 0x22] @ s @ [CHR 0x22]"

definition bucketName :: "string \<Rightarrow> string \<Rightarrow> string" where
  "bucketName environment UNIQUE_ID = ''angular-deploy-'' @ environment @ ''-'' @ UNIQUE_ID"

text \<open>Map \<open>prod\<close> to \<open>production\<close> for the config file.\<close>

definition configFile :: "string \<Rightarrow> string" where
  "configFile environment =
     (if environment = ''prod'' then ''environment.production.json''
      else ''environment.'' @ environment @ ''.json'')"

definition build_command :: string where
  "build_command = ''npm run build -- --configuration=production''"

definition invalidation_command :: "string \<Rightarrow> string" where
  "invalidation_command distribution_id =
     ''aws cloudfront create-invalidation --distribution-id '' @ distribution_id
       @ '' --paths '' @ double_quoted ''/*''"

definition dirname :: "string \<Rightarrow> string" where
  "dirname p = rev (drop 1 (dropWhile (\<lambda>c. c \<noteq> CHR ''/'') (rev p)))"

definition basename :: "string \<Rightarrow> string" where
  "basename p = rev (takeWhile (\<lambda>c. c \<noteq> CHR ''/'') (rev p))"

subsection \<open>deploy.mjs\<close>

text \<open>
  The parser of \<^verbatim>\<open>.env.aws\<close>. The file is UTF-8 text and a string is the list of
  its bytes. \<^verbatim>\<open>trim\<close> removes white space and line terminators from both ends:
  tab, line feed, vertical tab, form feed, carriage return, space, and, in their UTF-8
  encoding, U+00A0, U+1680, U+2000 to U+200A, U+2028, U+2029, U+202F, U+205F, U+3000
  and U+FEFF. \<^verbatim>\<open>split\<close> with a one-character separator always returns at least one
  piece; the separators used, line feed and \<open>=\<close>, are single bytes that occur in
  UTF-8 text only as themselves.
\<close>

definition white_space :: "string list" where
  "white_space =
     [[CHR 0x09], [CHR 0x0A], [CHR 0x0B], [CHR 0x0C], [CHR 0x0D], [CHR 0x20],
      [CHR 0xC2, CHR 0xA0],
      [CHR 0xE1, CHR 0x9A, CHR 0x80],
      [CHR 0xE2, CHR 0x80, CHR 0x80], [CHR 0xE2, CHR 0x80, CHR 0x81],
      [CHR 0xE2, CHR 0x80, CHR 0x82], [CHR 0xE2, CHR 0x80, CHR 0x83],
      [CHR 0xE2, CHR 0x80, CHR 0x84], [CHR 0xE2, CHR 0x80, CHR 0x85],
      [CHR 0xE2, CHR 0x80, CHR 0x86], [CHR 0xE2, CHR 0x80, CHR 0x87],
      [CHR 0xE2, CHR 0x80, CHR 0x88], [CHR 0xE2, CHR 0x80, CHR 0x89],
      [CHR 0xE2, CHR 0x80, CHR 0x8A],
      [CHR 0xE2, CHR 0x80, CHR 0xA8], [CHR 0xE2, CHR 0x80, CHR 0xA9],
      [CHR 0xE2, CHR 0x80, CHR 0xAF],
      [CHR 0xE2, CHR 0x81, CHR 0x9F],
      [CHR 0xE3, CHR 0x80, CHR 0x80],
      [CHR 0xEF, CHR 0xBB, CHR 0xBF]]"

text \<open>Remove, from the front, every leading member of a list of byte sequences.\<close>

fun strip_start :: "string list \<Rightarrow> string \<Rightarrow> string" where
  "strip_start seqs [] = []"
| "strip_start seqs (c # cs) =
     (case find (\<lambda>w. w \<noteq> [] \<and> prefix w (c # cs)) seqs of
        None \<Rightarrow> c # cs
      | Some w \<Rightarrow> strip_start seqs (drop (length w - 1) cs))"

definition trim :: "string \<Rightarrow> string" where
  "trim s = rev (strip_start (map rev white_space) (rev (strip_start white_space s)))"

fun split :: "char \<Rightarrow> string \<Rightarrow> string list" where
  "split sep [] = [[]]"
| "split sep (c # cs) =
     (if c = sep then [] # split sep cs
      else (case split sep cs of [] \<Rightarrow> [[c]] | piece # pieces \<Rightarrow> (c # piece) # pieces))"

text \<open>
  The body of the \<^verbatim>\<open>reduce\<close>: \<^verbatim>\<open>const [key, value] = line.split('=')\<close> takes the
  first two pieces; a missing or empty piece is falsy and the line is skipped.
\<close>

definition add_line :: "(string \<rightharpoonup> string) \<Rightarrow> string \<Rightarrow> (string \<rightharpoonup> string)" where
  "add_line acc line =
     (case split (CHR ''='') line of
        key # value # _ \<Rightarrow>
          if key \<noteq> [] \<and> value \<noteq> [] then acc(trim key \<mapsto> trim value) else acc
      | _ \<Rightarrow> acc)"

definition envVars :: "string \<Rightarrow> (string \<rightharpoonup> string)" where
  "envVars envFileContent =
     foldl add_line Map.empty
       (filter (\<lambda>line. trim line \<noteq> [] \<and> \<not> prefix ''#'' line)
          (split (CHR 0x0A) envFileContent))"

text \<open>
  What the \<^verbatim>\<open>try\<close> block can throw: an error the script raises itself, a child
  process that \<^verbatim>\<open>execSync\<close> ran and that exited with a non-zero status, and a failed
  \<^verbatim>\<open>copyFileSync\<close>. \<open>message\<close> is the text the \<^verbatim>\<open>catch\<close> prints; for the last
  two the platform writes it, and the model keeps the part that names the operation.
\<close>

datatype failure =
    Raised string
  | CommandFailed string nat
  | CopyFailed string string

fun message :: "failure \<Rightarrow> string" where
  "message (Raised m) = m"
| "message (CommandFailed command code) = ''Command failed: '' @ command"
| "message (CopyFailed src dst) = ''copyfile '' @ quoted src @ '' -> '' @ quoted dst"

text \<open>
  \<^verbatim>\<open>fs.copyFileSync(src, dst)\<close>: the source must be a regular file, the directory of
  the destination must exist, and the destination must not be a directory; the
  destination is then created or overwritten and nothing else changes.
\<close>

definition copyFileSync :: "tree \<Rightarrow> string \<Rightarrow> string \<Rightarrow> tree option" where
  "copyFileSync t src dst =
     (case t src of
        Some (File content) \<Rightarrow>
          if t (dirname dst) = Some Dir \<and> t dst \<noteq> Some Dir
          then Some (t(dst \<mapsto> File content))
          else None
      | _ \<Rightarrow> None)"

text \<open>
  \<^verbatim>\<open>path.join(__dirname, ...)\<close>: for the fixed segments used here the result is the
  script's directory followed by the segments, separated by slashes.
\<close>

definition sourceConfig :: "string \<Rightarrow> string \<Rightarrow> string" where
  "sourceConfig script_dir environment =
     script_dir @ ''/src/assets/config/'' @ configFile environment"

definition distPath :: "string \<Rightarrow> string" where
  "distPath script_dir = script_dir @ ''/dist/angular-release-deployment-frontend/browser''"

definition targetConfig :: "string \<Rightarrow> string" where
  "targetConfig script_dir = distPath script_dir @ ''/assets/config/environment.json''"

definition s3SyncCommand :: "string \<Rightarrow> string \<Rightarrow> string" where
  "s3SyncCommand script_dir bucket =
     ''aws s3 sync '' @ double_quoted (distPath script_dir) @ '' s3://'' @ bucket @ '' --delete''"

text \<open>Step 2 of the \<^verbatim>\<open>try\<close> block: swap the environment configuration.\<close>

definition swap_config_mjs :: "string \<Rightarrow> string \<Rightarrow> tree \<Rightarrow> failure + tree" where
  "swap_config_mjs script_dir environment t =
     (if t (sourceConfig script_dir environment) = None
      then Inl (Raised (''Config file not found: '' @ sourceConfig script_dir environment))
      else
        (case copyFileSync t (sourceConfig script_dir environment) (targetConfig script_dir) of
           None \<Rightarrow> Inl (CopyFailed (sourceConfig script_dir environment) (targetConfig script_dir))
         | Some t' \<Rightarrow> Inr t'))"

text \<open>The \<^verbatim>\<open>catch\<close> of the deployment steps.\<close>

definition deployment_failed ::
  "string list \<Rightarrow> (string \<times> process_env \<times> tree) list \<Rightarrow> tree \<Rightarrow> failure \<Rightarrow> outcome" where
  "deployment_failed lines cs t e =
     finish 1 (lines @ [''Deployment failed!'', message e]) cs t"

text \<open>Step 4 and the end of the \<^verbatim>\<open>try\<close> block, after the upload has succeeded.\<close>

definition invalidate_mjs ::
  "shell \<Rightarrow> process_env \<Rightarrow> string \<Rightarrow> string option \<Rightarrow> string list \<Rightarrow>
     (string \<times> process_env \<times> tree) list \<Rightarrow> tree \<Rightarrow> outcome" where
  "invalidate_mjs exec penv environment CLOUDFRONT_DISTRIBUTION_ID lines cs t =
     (if environment = ''prod'' then
        (case CLOUDFRONT_DISTRIBUTION_ID of
           Some distribution_id \<Rightarrow>
             if distribution_id = [] then
               finish 0 (lines @ [''[4/5] Invalidating CloudFront cache...'',
                 ''CloudFront distribution ID not found in .env.aws'',
                 ''Skipping cache invalidation'', ''[5/5] Deployment complete!'']) cs t
             else
               (case exec (invalidation_command distribution_id) penv t of
                  (code, t') \<Rightarrow>
                    if code \<noteq> 0 then
                      finish 0 (lines @ [''[4/5] Invalidating CloudFront cache...'',
                        ''CloudFront invalidation failed (not critical)'',
                        ''[5/5] Deployment complete!''])
                        (cs @ [(invalidation_command distribution_id, penv, t)]) t'
                    else
                      finish 0 (lines @ [''[4/5] Invalidating CloudFront cache...'',
                        ''CloudFront cache invalidated'',
                        ''Fresh content will be available within 1-2 minutes'',
                        ''[5/5] Deployment complete!''])
                        (cs @ [(invalidation_command distribution_id, penv, t)]) t')
         | None \<Rightarrow>
             finish 0 (lines @ [''[4/5] Invalidating CloudFront cache...'',
               ''CloudFront distribution ID not found in .env.aws'',
               ''Skipping cache invalidation'', ''[5/5] Deployment complete!'']) cs t)
      else finish 0 (lines @ [''[4/4] Deployment complete!'']) cs t)"

text \<open>
  The \<^verbatim>\<open>try\<close> block: build, swap the configuration, upload, invalidate. The
  build command is a literal and the build is started with a copy of
  \<^verbatim>\<open>process.env\<close>, as the other programs are by default; the requested environment
  first appears in step 2.
\<close>

definition deployment_steps_mjs ::
  "shell \<Rightarrow> string \<Rightarrow> process_env \<Rightarrow> string \<Rightarrow> string \<Rightarrow> string option \<Rightarrow> string list \<Rightarrow>
     tree \<Rightarrow> outcome" where
  "deployment_steps_mjs exec script_dir penv environment bucket CLOUDFRONT_DISTRIBUTION_ID
     lines0 t0 =
     (case exec build_command penv t0 of
        (code1, t1) \<Rightarrow>
          if code1 \<noteq> 0 then
            deployment_failed (lines0 @ [''[1/4] Building Angular application...''])
              [(build_command, penv, t0)] t1 (CommandFailed build_command code1)
          else
            (case swap_config_mjs script_dir environment t1 of
               Inl e \<Rightarrow>
                 deployment_failed
                   (lines0 @ [''[1/4] Building Angular application...'',
                      ''Build completed successfully'',
                      ''[2/4] Swapping environment configuration...''])
                   [(build_command, penv, t0)] t1 e
             | Inr t2 \<Rightarrow>
                 (case exec (s3SyncCommand script_dir bucket) penv t2 of
                    (code3, t3) \<Rightarrow>
                      if code3 \<noteq> 0 then
                        deployment_failed
                          (lines0 @ [''[1/4] Building Angular application...'',
                             ''Build completed successfully'',
                             ''[2/4] Swapping environment configuration...'',
                             ''Configuration swapped to '' @ environment,
                             ''[3/4] Deploying to S3 bucket: '' @ bucket])
                          [(build_command, penv, t0), (s3SyncCommand script_dir bucket, penv, t2)] t3
                          (CommandFailed (s3SyncCommand script_dir bucket) code3)
                      else
                        invalidate_mjs exec penv environment CLOUDFRONT_DISTRIBUTION_ID
                          (lines0 @ [''[1/4] Building Angular application...'',
                             ''Build completed successfully'',
                             ''[2/4] Swapping environment configuration...'',
                             ''Configuration swapped to '' @ environment,
                             ''[3/4] Deploying to S3 bucket: '' @ bucket,
                             ''Files uploaded to S3''])
                          [(build_command, penv, t0), (s3SyncCommand script_dir bucket, penv, t2)] t3)))"

text \<open>
  The whole script. \<open>penv\<close> is \<^verbatim>\<open>process.env\<close>, which the script never changes,
  and \<open>argv2\<close> is \<^verbatim>\<open>process.argv[2]\<close>, absent when no argument was given. \<^verbatim>\<open>existsSync\<close> is true of a directory too; reading a directory then throws
  outside any \<^verbatim>\<open>try\<close>, which ends the process with status 1.
\<close>

definition deploy_mjs ::
  "shell \<Rightarrow> string \<Rightarrow> process_env \<Rightarrow> string option \<Rightarrow> tree \<Rightarrow> outcome" where
  "deploy_mjs exec script_dir penv argv2 t0 =
     (case argv2 of
        None \<Rightarrow> finish 1 [''No environment specified''] [] t0
      | Some environment \<Rightarrow>
          if environment = [] then finish 1 [''No environment specified''] [] t0
          else if environment \<notin> set validEnvironments then
            finish 1 [''Invalid environment: '' @ quoted environment,
                      ''Must be one of: dev, qa, staging, prod''] [] t0
          else
            (case t0 (script_dir @ ''/.env.aws'') of
               None \<Rightarrow>
                 finish 1 [''.env.aws file not found!'',
                           ''Please ensure .env.aws exists with UNIQUE_ID variable''] [] t0
             | Some Dir \<Rightarrow> finish 1 [] [] t0
             | Some (File envFileContent) \<Rightarrow>
                 (case envVars envFileContent ''UNIQUE_ID'' of
                    None \<Rightarrow> finish 1 [''UNIQUE_ID not found in .env.aws''] [] t0
                  | Some UNIQUE_ID \<Rightarrow>
                      if UNIQUE_ID = [] then
                        finish 1 [''UNIQUE_ID not found in .env.aws''] [] t0
                      else
                        deployment_steps_mjs exec script_dir penv environment
                          (bucketName environment UNIQUE_ID)
                          (envVars envFileContent ''CLOUDFRONT_DISTRIBUTION_ID'')
                          [''Environment:  '' @ environment,
                           ''Bucket:       '' @ bucketName environment UNIQUE_ID,
                           ''Config:       '' @ configFile environment]
                          t0)))"

subsection \<open>deploy.sh\<close>

text \<open>
  The script runs under \<^verbatim>\<open>set -e\<close>: a command that returns a non-zero status,
  outside the condition of an \<^verbatim>\<open>if\<close>, ends the script there with that status.
  The tests of \<^verbatim>\<open>$?\<close> that follow the build, the upload and the invalidation are
  kept in the model, after the point where \<^verbatim>\<open>set -e\<close> has already decided.

  The state of the shell is the value of each variable, an unset variable reading as the
  empty string (the script never tells the two apart), and which variables are exported.
  The shell starts with the variables of its environment, all exported; an assignment
  changes a value and leaves the export attribute as it is, so assigning to a variable
  that was already exported changes what every program started later receives. A started
  program receives the exported variables.
\<close>

record shell_state =
  value_of :: "string \<Rightarrow> string"
  exported :: "string \<Rightarrow> bool"

definition inherit :: "process_env \<Rightarrow> shell_state" where
  "inherit inherited =
     \<lparr>value_of = (\<lambda>name. case inherited name of None \<Rightarrow> [] | Some v \<Rightarrow> v),
      exported = (\<lambda>name. inherited name \<noteq> None)\<rparr>"

definition assign :: "string \<Rightarrow> string \<Rightarrow> shell_state \<Rightarrow> shell_state" where
  "assign name v st = st\<lparr>value_of := (value_of st)(name := v)\<rparr>"

definition child_environment :: "shell_state \<Rightarrow> process_env" where
  "child_environment st = (\<lambda>name. if exported st name then Some (value_of st name) else None)"

text \<open>
  \<^verbatim>\<open>source .env.aws\<close> lets the shell interpret the file: \<open>source\<close>, a parameter, takes
  the content of the file and the state before to a status and the state after; the file
  is taken to hold assignments, exported or not, so it starts no program, changes no
  file and leaves \<^verbatim>\<open>set -e\<close> on. Paths are relative to the directory the script
  is started in.
\<close>

type_synonym sourcing = "string \<Rightarrow> shell_state \<Rightarrow> nat \<times> shell_state"

text \<open>
  \<^verbatim>\<open>echo -e\<close> interprets backslash escapes in its argument, among them those that
  come from the value of a variable. How the shell does that is the parameter
  \<open>escapes\<close>; a text without a backslash is written as it is. The colour variables
  are the only backslashes the script itself puts into a line; the model leaves them
  out, with whatever is written for them, and reads the escapes of the rest. The three
  lines that show environment, bucket and configuration file are written by a plain
  \<^verbatim>\<open>echo\<close>.
\<close>

definition echo_e :: "(string \<Rightarrow> string) \<Rightarrow> string \<Rightarrow> string" where
  "echo_e escapes text = (if CHR 0x5C \<in> set text then escapes text else text)"

text \<open>Lines 10 to 17: the colour variables and \<^verbatim>\<open>ENVIRONMENT=$1\<close>.\<close>

definition script_start :: "string \<Rightarrow> process_env \<Rightarrow> shell_state" where
  "script_start arg1 inherited =
     assign ''ENVIRONMENT'' arg1
       (assign ''NC'' ([CHR 0x5C] @ ''033[0m'')
         (assign ''YELLOW'' ([CHR 0x5C] @ ''033[1;33m'')
           (assign ''GREEN'' ([CHR 0x5C] @ ''033[0;32m'')
             (assign ''RED'' ([CHR 0x5C] @ ''033[0;31m'') (inherit inherited)))))"

text \<open>Lines 54 to 63: \<^verbatim>\<open>BUCKET_NAME\<close> and \<^verbatim>\<open>CONFIG_FILE\<close>, set before the build.\<close>

definition configured :: "shell_state \<Rightarrow> shell_state" where
  "configured st =
     assign ''CONFIG_FILE'' (configFile (value_of st ''ENVIRONMENT''))
       (assign ''BUCKET_NAME''
          (bucketName (value_of st ''ENVIRONMENT'') (value_of st ''UNIQUE_ID'')) st)"

text \<open>
  \<^verbatim>\<open>cp src dst\<close> for a source that is a regular file: onto a directory it copies
  into it under the source's name, otherwise it creates or overwrites the destination,
  whose directory must exist.
\<close>

definition cp :: "tree \<Rightarrow> string \<Rightarrow> string \<Rightarrow> nat \<times> tree" where
  "cp t src dst =
     (case t src of
        Some (File content) \<Rightarrow>
          if t dst = Some Dir then (0, t(dst @ ''/'' @ basename src \<mapsto> File content))
          else if t (dirname dst) = Some Dir then (0, t(dst \<mapsto> File content))
          else (1, t)
      | _ \<Rightarrow> (1, t))"

definition SOURCE_CONFIG :: "string \<Rightarrow> string" where
  "SOURCE_CONFIG ENVIRONMENT = ''src/assets/config/'' @ configFile ENVIRONMENT"

definition TARGET_CONFIG :: string where
  "TARGET_CONFIG =
     ''dist/angular-release-deployment-frontend/browser/assets/config/environment.json''"

definition sync_command_sh :: "string \<Rightarrow> string" where
  "sync_command_sh BUCKET_NAME =
     ''aws s3 sync dist/angular-release-deployment-frontend/browser s3://'' @ BUCKET_NAME
       @ '' --delete''"

text \<open>Lines 90 and 91: the two path variables, set after the build.\<close>

definition swapping :: "string \<Rightarrow> shell_state \<Rightarrow> shell_state" where
  "swapping ENVIRONMENT st =
     assign ''TARGET_CONFIG'' TARGET_CONFIG
       (assign ''SOURCE_CONFIG'' (SOURCE_CONFIG ENVIRONMENT) st)"

text \<open>
  Step 2: the \<^verbatim>\<open>-f\<close> test and the copy. The result is the status of an early exit
  with the texts handed to \<^verbatim>\<open>echo -e\<close> before it, or the tree after the copy.
\<close>

definition swap_config_sh :: "string \<Rightarrow> tree \<Rightarrow> (nat \<times> string list) + tree" where
  "swap_config_sh ENVIRONMENT t =
     (case t (SOURCE_CONFIG ENVIRONMENT) of
        Some (File content) \<Rightarrow>
          (case cp t (SOURCE_CONFIG ENVIRONMENT) TARGET_CONFIG of
             (code, t') \<Rightarrow> if code \<noteq> 0 then Inl (code, []) else Inr t')
      | _ \<Rightarrow> Inl (1, [''Error: Config file not found: '' @ SOURCE_CONFIG ENVIRONMENT]))"

text \<open>Step 4 and the end of the script, after the upload has succeeded.\<close>

definition invalidate_sh ::
  "shell \<Rightarrow> process_env \<Rightarrow> string \<Rightarrow> string \<Rightarrow> string list \<Rightarrow>
     (string \<times> process_env \<times> tree) list \<Rightarrow> tree \<Rightarrow> outcome" where
  "invalidate_sh exec penv ENVIRONMENT CLOUDFRONT_DISTRIBUTION_ID lines cs t =
     (if ENVIRONMENT = ''prod'' then
        (if CLOUDFRONT_DISTRIBUTION_ID = [] then
           finish 0 (lines @ [''[4/5] Invalidating CloudFront cache...'',
             ''CloudFront distribution ID not found in .env.aws'',
             ''Skipping cache invalidation'', ''[5/5] Deployment complete!'']) cs t
         else
           (case exec (invalidation_command CLOUDFRONT_DISTRIBUTION_ID) penv t of
              (code, t') \<Rightarrow>
                if code \<noteq> 0 then
                  finish code (lines @ [''[4/5] Invalidating CloudFront cache...''])
                    (cs @ [(invalidation_command CLOUDFRONT_DISTRIBUTION_ID, penv, t)]) t'
                else if code = 0 then
                  finish 0 (lines @ [''[4/5] Invalidating CloudFront cache...'',
                    ''CloudFront cache invalidated'',
                    ''   Fresh content will be available within 1-2 minutes'',
                    ''[5/5] Deployment complete!''])
                    (cs @ [(invalidation_command CLOUDFRONT_DISTRIBUTION_ID, penv, t)]) t'
                else
                  finish 0 (lines @ [''[4/5] Invalidating CloudFront cache...'',
                    ''CloudFront invalidation failed (not critical)'',
                    ''[5/5] Deployment complete!''])
                    (cs @ [(invalidation_command CLOUDFRONT_DISTRIBUTION_ID, penv, t)]) t'))
      else finish 0 (lines @ [''[4/4] Deployment complete!'']) cs t)"

text \<open>
  Steps 1 to 3, then step 4, from the state \<open>st\<close> the shell is in when the build
  starts. The build command is a literal; the build receives the variables exported in
  \<open>st\<close>, the upload and the invalidation those exported once the path variables are
  set.
\<close>

definition deployment_steps_sh ::
  "shell \<Rightarrow> (string \<Rightarrow> string) \<Rightarrow> shell_state \<Rightarrow> string \<Rightarrow> string \<Rightarrow> string \<Rightarrow> string list \<Rightarrow>
     tree \<Rightarrow> outcome" where
  "deployment_steps_sh exec escapes st ENVIRONMENT BUCKET_NAME CLOUDFRONT_DISTRIBUTION_ID
     lines0 t0 =
     (case exec build_command (child_environment st) t0 of
        (code1, t1) \<Rightarrow>
          if code1 \<noteq> 0 then
            finish code1 (lines0 @ [''[1/4] Building Angular application...''])
              [(build_command, child_environment st, t0)] t1
          else if code1 \<noteq> 0 then
            finish 1 (lines0 @ [''[1/4] Building Angular application...'',
              ''Build failed! Aborting deployment.''])
              [(build_command, child_environment st, t0)] t1
          else
            (case swap_config_sh ENVIRONMENT t1 of
               Inl (code2, lines2) \<Rightarrow>
                 finish code2
                   (lines0 @ [''[1/4] Building Angular application...'',
                      ''Build completed successfully'',
                      ''[2/4] Swapping environment configuration...'']
                      @ map (echo_e escapes) lines2)
                   [(build_command, child_environment st, t0)] t1
             | Inr t2 \<Rightarrow>
                 (case exec (sync_command_sh BUCKET_NAME)
                         (child_environment (swapping ENVIRONMENT st)) t2 of
                    (code3, t3) \<Rightarrow>
                      if code3 \<noteq> 0 then
                        finish code3
                          (lines0 @ [''[1/4] Building Angular application...'',
                             ''Build completed successfully'',
                             ''[2/4] Swapping environment configuration...'',
                             echo_e escapes (''Configuration swapped to '' @ ENVIRONMENT),
                             echo_e escapes (''[3/4] Deploying to S3 bucket: '' @ BUCKET_NAME)])
                          [(build_command, child_environment st, t0),
                           (sync_command_sh BUCKET_NAME,
                            child_environment (swapping ENVIRONMENT st), t2)] t3
                      else if code3 \<noteq> 0 then
                        finish 1
                          (lines0 @ [''[1/4] Building Angular application...'',
                             ''Build completed successfully'',
                             ''[2/4] Swapping environment configuration...'',
                             echo_e escapes (''Configuration swapped to '' @ ENVIRONMENT),
                             echo_e escapes (''[3/4] Deploying to S3 bucket: '' @ BUCKET_NAME),
                             ''Deployment failed!''])
                          [(build_command, child_environment st, t0),
                           (sync_command_sh BUCKET_NAME,
                            child_environment (swapping ENVIRONMENT st), t2)] t3
                      else
                        invalidate_sh exec (child_environment (swapping ENVIRONMENT st))
                          ENVIRONMENT CLOUDFRONT_DISTRIBUTION_ID
                          (lines0 @ [''[1/4] Building Angular application...'',
                             ''Build completed successfully'',
                             ''[2/4] Swapping environment configuration...'',
                             echo_e escapes (''Configuration swapped to '' @ ENVIRONMENT),
                             echo_e escapes (''[3/4] Deploying to S3 bucket: '' @ BUCKET_NAME),
                             ''Files uploaded to S3''])
                          [(build_command, child_environment st, t0),
                           (sync_command_sh BUCKET_NAME,
                            child_environment (swapping ENVIRONMENT st), t2)] t3)))"

text \<open>
  The whole script. \<open>arg1\<close> is \<^verbatim>\<open>$1\<close>, empty when no argument was given, and
  \<open>inherited\<close> the environment the shell is started with. The file is looked for and
  sourced before the environment is examined, and the examination reads the variable
  \<open>ENVIRONMENT\<close> as the sourced file has left it. \<open>UNIQUE_ID\<close> is used as it is.
\<close>

definition deploy_sh ::
  "shell \<Rightarrow> sourcing \<Rightarrow> (string \<Rightarrow> string) \<Rightarrow> string \<Rightarrow> process_env \<Rightarrow> tree \<Rightarrow> outcome" where
  "deploy_sh exec source escapes arg1 inherited t0 =
     (case t0 ''.env.aws'' of
        Some (File content) \<Rightarrow>
          (case source content (script_start arg1 inherited) of
             (code, st) \<Rightarrow>
               if code \<noteq> 0 then finish code [] [] t0
               else if value_of st ''ENVIRONMENT'' = [] then
                 finish 1 [''Error: No environment specified''] [] t0
               else if value_of st ''ENVIRONMENT'' \<notin> set [''dev'', ''qa'', ''staging'', ''prod'']
               then
                 finish 1
                   [echo_e escapes
                      (''Error: Invalid environment '' @ quoted (value_of st ''ENVIRONMENT'')),
                    ''Must be one of: dev, qa, staging, prod''] [] t0
               else
                 deployment_steps_sh exec escapes (configured st)
                   (value_of st ''ENVIRONMENT'')
                   (bucketName (value_of st ''ENVIRONMENT'') (value_of st ''UNIQUE_ID''))
                   (value_of st ''CLOUDFRONT_DISTRIBUTION_ID'')
                   [''Environment:  '' @ value_of st ''ENVIRONMENT'',
                    ''Bucket:       '' @
                      bucketName (value_of st ''ENVIRONMENT'') (value_of st ''UNIQUE_ID''),
                    ''Config:       '' @ configFile (value_of st ''ENVIRONMENT'')]
                   t0)
      | _ \<Rightarrow>
          finish 1 [''Error: .env.aws file not found!'',
                    ''Please ensure .env.aws exists with UNIQUE_ID variable''] [] t0)"

section \<open>Scenarios\<close>

text \<open>
  Concrete inputs on which the theorems below are exercised. \<open>sample_url_parses\<close> stands
  for the platform's URL parser on the strings of these scenarios: it accepts the two
  addresses of the QA document, as the parser does, and nothing else.
\<close>

definition sample_url_parses :: "string \<Rightarrow> bool" where
  "sample_url_parses s =
     (s = ''https://api-qa.example.com'' \<or> s = ''https://auth-qa.example.com'')"

definition qa_fields :: "(string \<times> json) list" where
  "qa_fields =
     [(''name'', JStr ''qa''),
      (''production'', JBool False),
      (''apiUrl'', JStr ''https://api-qa.example.com''),
      (''authUrl'', JStr ''https://auth-qa.example.com''),
      (''features'',
         JObj [(''enableAnalytics'', JBool False), (''enableLogging'', JBool True),
               (''enableNewCheckout'', JBool False)])]"

definition without_field :: "string \<Rightarrow> (string \<times> json) list \<Rightarrow> (string \<times> json) list" where
  "without_field F kvs = filter (\<lambda>kv. fst kv \<noteq> F) kvs"

definition with_field :: "string \<Rightarrow> json \<Rightarrow> (string \<times> json) list \<Rightarrow> (string \<times> json) list" where
  "with_field F v kvs = map (\<lambda>kv. if fst kv = F then (F, v) else kv) kvs"

text \<open>
  A checkout of the repository below \<open>root\<close> (empty for the directory the shell script
  is started in), with an operator file and the configuration documents of two
  environments, and what a successful build adds to it.
\<close>

definition env_aws_lines :: "string list" where
  "env_aws_lines =
     [''# AWS settings'',
      ''UNIQUE_ID=abc123'',
      ''CLOUDFRONT_DISTRIBUTION_ID=E2EXAMPLE'',
      ''CLOUDFRONT_DOMAIN=d111.cloudfront.net'']"

definition checkout :: "string \<Rightarrow> string list \<Rightarrow> tree" where
  "checkout root env_lines =
     [root @ ''.env.aws'' \<mapsto> File (join_with [CHR 0x0A] env_lines),
      root @ ''src/assets/config/environment.dev.json'' \<mapsto> File ''{dev}'',
      root @ ''src/assets/config/environment.production.json'' \<mapsto> File ''{production}'']"

definition built :: "string \<Rightarrow> tree \<Rightarrow> tree" where
  "built root t =
     t(root @ ''dist/angular-release-deployment-frontend/browser/assets/config'' \<mapsto> Dir,
       root @ ''dist/angular-release-deployment-frontend/browser/index.html'' \<mapsto> File ''<html>'',
       root @ ''dist/angular-release-deployment-frontend/browser/assets/config/environment.json''
         \<mapsto> File ''{default}'')"

text \<open>
  A shell in which the build succeeds and adds its output, every other command succeeds
  and changes no file, and a command that starts with \<open>failing\<close> (if not empty) exits
  with status 255, whatever the environment it is started with.
\<close>

definition sample_exec :: "string \<Rightarrow> string \<Rightarrow> shell" where
  "sample_exec root failing command penv t =
     (if failing \<noteq> [] \<and> prefix failing command then (255, t)
      else if command = build_command then (0, built root t)
      else (0, t))"

text \<open>
  Sourcing a file of plain \<open>NAME=value\<close> lines: it succeeds, assigns what the lines say,
  which for such a file is what the parser of the Node script reads, and exports
  nothing new.
\<close>

definition sample_source :: sourcing where
  "sample_source content st =
     (0, st\<lparr>value_of :=
            (\<lambda>name. case envVars content name of Some v \<Rightarrow> v | None \<Rightarrow> value_of st name)\<rparr>)"

text \<open>
  Environments a script is started with: an empty one, an operator's, and one in which a
  variable \<open>ENVIRONMENT\<close> is already exported.
\<close>

definition no_variables :: process_env where
  "no_variables = (\<lambda>name. None)"

definition operator_environment :: process_env where
  "operator_environment = [''PATH'' \<mapsto> ''/usr/bin'', ''HOME'' \<mapsto> ''/home/operator'']"


text \<open>
  No text of these scenarios holds a backslash, so the interpretation of escapes is never
  consulted; the identity stands in for it.
\<close>

definition sample_escapes :: "string \<Rightarrow> string" where
  "sample_escapes text = text"




section \<open>Properties of the configuration loader\<close>

lemmas loader_defs = loadConfig_def load_failed_def validateConfig_def requiredFields_def
  isValidUrl_def throw_with_value_def ToString_value_def getConfig_def getter_def

lemmas loader_scenarios = qa_fields_def without_field_def with_field_def
  sample_url_parses_def new_service_def

lemma required_cases:
  assumes "F \<in> set requiredFields"
  obtains "F = ''name''" | "F = ''production''" | "F = ''apiUrl''" | "F = ''authUrl''"
    | "F = ''features''"
  using assms by (auto simp: requiredFields_def)

lemma check_required_object:
  "check_required (JObj kvs) names = Inr () \<longleftrightarrow>
     (\<forall>F \<in> set names. map_of kvs F \<noteq> None \<and> map_of kvs F \<noteq> Some JNull)"
  by (induction names) auto

lemma check_required_not_object:
  "(\<forall>kvs. d \<noteq> JObj kvs) \<Longrightarrow> check_required d requiredFields \<noteq> Inr ()"
  by (cases d) (simp_all add: requiredFields_def)

lemma check_required_first_missing:
  assumes "F \<in> set requiredFields"
    and "map_of kvs F = None \<or> map_of kvs F = Some JNull"
    and "\<forall>G \<in> set requiredFields. G \<noteq> F \<longrightarrow> map_of kvs G \<noteq> None \<and> map_of kvs G \<noteq> Some JNull"
  shows "check_required (JObj kvs) requiredFields =
           Inl (Error (''Missing required configuration field: '' @ F))"
proof -
  have others: "\<And>G. G \<in> set requiredFields \<Longrightarrow> G \<noteq> F \<Longrightarrow>
      \<not> (map_of kvs G = None \<or> map_of kvs G = Some JNull)"
    using assms(3) by blast
  have n: "F \<noteq> ''name'' \<Longrightarrow>
      \<not> (map_of kvs ''name'' = None \<or> map_of kvs ''name'' = Some JNull)"
    using others[of "''name''"] by (simp add: requiredFields_def)
  have p: "F \<noteq> ''production'' \<Longrightarrow>
      \<not> (map_of kvs ''production'' = None \<or> map_of kvs ''production'' = Some JNull)"
    using others[of "''production''"] by (simp add: requiredFields_def)
  have a: "F \<noteq> ''apiUrl'' \<Longrightarrow>
      \<not> (map_of kvs ''apiUrl'' = None \<or> map_of kvs ''apiUrl'' = Some JNull)"
    using others[of "''apiUrl''"] by (simp add: requiredFields_def)
  have b: "F \<noteq> ''authUrl'' \<Longrightarrow>
      \<not> (map_of kvs ''authUrl'' = None \<or> map_of kvs ''authUrl'' = Some JNull)"
    using others[of "''authUrl''"] by (simp add: requiredFields_def)
  from assms(1) show ?thesis
  proof (cases rule: required_cases)
    case 1 with assms(2) show ?thesis by (simp add: requiredFields_def)
  next
    case 2 with assms(2) n show ?thesis by (simp add: requiredFields_def)
  next
    case 3 with assms(2) n p show ?thesis by (simp add: requiredFields_def)
  next
    case 4 with assms(2) n p a show ?thesis by (simp add: requiredFields_def)
  next
    case 5 with assms(2) n p a b show ?thesis by (simp add: requiredFields_def)
  qed
qed

text \<open>
  Whatever the body is, and whether or not validation accepts it, the service holds
  that body afterwards, and hands it out unless it is falsy. A failed request leaves the
  service as it was: a fresh one holds nothing, and its accessors throw.
\<close>

lemma loadConfig_keeps_body: "config (service (loadConfig U (HttpBody d) s)) = d"
  by (simp add: loadConfig_def load_failed_def Let_def split: sum.splits option.splits)

lemma loadConfig_fetch_failure:
  "getConfig (service (loadConfig U (HttpFailure f) new_service)) =
     Inl (Error ''Configuration not loaded. APP_INITIALIZER may have failed.'')"
  by (simp add: loadConfig_def load_failed_def getConfig_def new_service_def)

lemma getConfig_before_load:
  "getConfig new_service = Inl (Error ''Configuration not loaded. APP_INITIALIZER may have failed.'')"
  and "getter field new_service
         = Inl (Error ''Configuration not loaded. APP_INITIALIZER may have failed.'')"
  by (simp_all add: getConfig_def getter_def new_service_def)

lemma loadConfig_fetch_failure_keeps_service:
  "service (loadConfig U (HttpFailure f) s) = s"
  by (simp add: loadConfig_def load_failed_def)

lemma rejected_load_exposes_body:
  "settled (loadConfig U (HttpBody d) s) \<noteq> Inr () \<Longrightarrow> \<not> falsy d \<Longrightarrow>
     getConfig (service (loadConfig U (HttpBody d) s)) = Inr d"
  by (simp add: getConfig_def loadConfig_keeps_body)

text \<open>
  C1. The claim: after \<^verbatim>\<open>load()\<close> rejects, \<^verbatim>\<open>get()\<close> and every field accessor fail
  with the "configuration not loaded" error and never return a partially validated
  configuration. The service assigns the fetched body before it validates it. For the
  QA document with \<open>name\<close> removed, \<^verbatim>\<open>loadConfig\<close> rejects, and afterwards
  \<^verbatim>\<open>getConfig\<close> returns that rejected document and the \<open>apiUrl\<close> getter a field of it.
\<close>

theorem C1_config_kept_after_rejected_load:
  "settled (loadConfig sample_url_parses (HttpBody (JObj (without_field ''name'' qa_fields)))
      new_service) = Inl (Error ''Failed to load application configuration'')
   \<and> getConfig (service (loadConfig sample_url_parses
        (HttpBody (JObj (without_field ''name'' qa_fields))) new_service))
      = Inr (JObj (without_field ''name'' qa_fields))
   \<and> apiUrl (service (loadConfig sample_url_parses
        (HttpBody (JObj (without_field ''name'' qa_fields))) new_service))
      = Inr (Some (JStr ''https://api-qa.example.com''))"
  by (simp add: loader_defs loader_scenarios apiUrl_def)

text \<open>
  C3, as stated, fails: the error that \<^verbatim>\<open>load()\<close> rejects with is the same fixed
  error whichever field is missing, and does not name the field.
\<close>

theorem C3_counterexample:
  "settled (loadConfig sample_url_parses (HttpBody (JObj (without_field ''name'' qa_fields)))
      new_service) = Inl (Error ''Failed to load application configuration'')
   \<and> \<not> sublist ''name'' ''Failed to load application configuration''
   \<and> settled (loadConfig sample_url_parses
        (HttpBody (JObj (without_field ''features'' qa_fields))) new_service)
      = settled (loadConfig sample_url_parses
        (HttpBody (JObj (without_field ''name'' qa_fields))) new_service)"
proof -
  have "\<not> sublist ''name'' ''Failed to load application configuration''"
    by code_simp
  then show ?thesis by (simp add: loader_defs loader_scenarios)
qed

text \<open>
  C3, amended. The required fields are \<open>name\<close>, \<open>production\<close>, \<open>apiUrl\<close>, \<open>authUrl\<close>
  and \<open>features\<close>. For each of them, F, and every document that is an object in which
  F is absent or null and the other four are present and not null, validation throws
  "Missing required configuration field: F"; \<^verbatim>\<open>load()\<close> writes that error to the
  console and rejects with the fixed error "Failed to load application configuration".
  The validation error determines F.
\<close>

theorem C3_missing_field_named_by_validation:
  assumes "F \<in> set requiredFields"
    and "map_of kvs F = None \<or> map_of kvs F = Some JNull"
    and "\<forall>G \<in> set requiredFields. G \<noteq> F \<longrightarrow> map_of kvs G \<noteq> None \<and> map_of kvs G \<noteq> Some JNull"
  shows "validateConfig U (JObj kvs) =
           Inl (Error (''Missing required configuration field: '' @ F))
       \<and> loadConfig U (HttpBody (JObj kvs)) s =
           \<lparr>service = s\<lparr>config := JObj kvs\<rparr>,
            logged = [ConsoleError ''[ConfigService] Failed to load configuration:''
                        (Error (''Missing required configuration field: '' @ F))],
            settled = Inl (Error ''Failed to load application configuration'')\<rparr>
       \<and> (\<forall>G. Error (''Missing required configuration field: '' @ G)
                = Error (''Missing required configuration field: '' @ F) \<longrightarrow> G = F)"
proof -
  have v: "validateConfig U (JObj kvs) =
      Inl (Error (''Missing required configuration field: '' @ F))"
    using check_required_first_missing[OF assms] by (simp add: validateConfig_def)
  then show ?thesis by (simp add: loadConfig_def load_failed_def)
qed

text \<open>The amended C3 at the QA document without \<open>name\<close>.\<close>

theorem C3_missing_field_named_by_validation_witness:
  "''name'' \<in> set requiredFields
   \<and> map_of (without_field ''name'' qa_fields) ''name'' = None
   \<and> validateConfig sample_url_parses (JObj (without_field ''name'' qa_fields)) =
       Inl (Error ''Missing required configuration field: name'')
   \<and> logged (loadConfig sample_url_parses (HttpBody (JObj (without_field ''name'' qa_fields)))
        new_service) =
       [ConsoleError ''[ConfigService] Failed to load configuration:''
          (Error ''Missing required configuration field: name'')]"
  using C3_missing_field_named_by_validation
    [of "''name''" "without_field ''name'' qa_fields" sample_url_parses new_service]
  by (simp add: requiredFields_def qa_fields_def without_field_def)

text \<open>When validation passes, and when the promise resolves.\<close>

lemma validate_object:
  "(\<exists>msgs. validateConfig U (JObj kvs) = Inr msgs) \<longleftrightarrow>
     (\<forall>F \<in> set requiredFields. map_of kvs F \<noteq> None \<and> map_of kvs F \<noteq> Some JNull)
     \<and> (\<exists>a. ToString_value (map_of kvs ''apiUrl'') = Some a \<and> U a)
     \<and> (\<exists>b. ToString_value (map_of kvs ''authUrl'') = Some b \<and> U b)"
proof (cases "check_required (JObj kvs) requiredFields")
  case (Inl e)
  then have "\<not> (\<forall>F \<in> set requiredFields. map_of kvs F \<noteq> None \<and> map_of kvs F \<noteq> Some JNull)"
    using check_required_object[of kvs requiredFields] by simp
  with Inl show ?thesis by (simp add: validateConfig_def)
next
  case (Inr u)
  then have "\<forall>F \<in> set requiredFields. map_of kvs F \<noteq> None \<and> map_of kvs F \<noteq> Some JNull"
    using check_required_object[of kvs requiredFields] by simp
  with Inr show ?thesis
    by (auto simp: validateConfig_def isValidUrl_def split: option.splits)
qed

lemma validate_not_object:
  "(\<forall>kvs. d \<noteq> JObj kvs) \<Longrightarrow> validateConfig U d = Inr msgs \<Longrightarrow> False"
  using check_required_not_object[of d]
  by (auto simp: validateConfig_def split: sum.splits)

lemma loadConfig_settled:
  "settled (loadConfig U (HttpBody d) s) = Inr () \<longleftrightarrow>
     (\<exists>msgs n txt. validateConfig U d = Inr msgs \<and> get_field d ''name'' = Inr n
        \<and> ToString_value n = Some txt)"
  by (auto simp: loadConfig_def load_failed_def Let_def split: sum.splits option.splits)

text \<open>
  C4, as stated, fails: a document whose \<open>production\<close> is the string \<open>yes\<close> loads, and
  the service then hands out that string.
\<close>

theorem C4_counterexample:
  "settled (loadConfig sample_url_parses
      (HttpBody (JObj (with_field ''production'' (JStr ''yes'') qa_fields))) new_service) = Inr ()
   \<and> isProduction (service (loadConfig sample_url_parses
      (HttpBody (JObj (with_field ''production'' (JStr ''yes'') qa_fields))) new_service))
     = Inr (Some (JStr ''yes''))"
  by (simp add: loader_defs loader_scenarios isProduction_def)

text \<open>
  C4, amended. Validation checks no type and changes no value. \<^verbatim>\<open>load()\<close> resolves
  exactly for a document that is an object with the five required fields present and
  not null, whose \<open>apiUrl\<close> and \<open>authUrl\<close>, converted to strings, parse as URLs, and whose
  \<open>name\<close> converts to a string; the types of \<open>name\<close>, \<open>production\<close> and \<open>features\<close> play
  no part. What the service holds afterwards is the fetched document itself.
\<close>

theorem C4_presence_checked_types_not:
  "(settled (loadConfig U (HttpBody d) s) = Inr () \<longleftrightarrow>
      (\<exists>kvs. d = JObj kvs
         \<and> (\<forall>F \<in> set requiredFields. map_of kvs F \<noteq> None \<and> map_of kvs F \<noteq> Some JNull)
         \<and> (\<exists>a. ToString_value (map_of kvs ''apiUrl'') = Some a \<and> U a)
         \<and> (\<exists>b. ToString_value (map_of kvs ''authUrl'') = Some b \<and> U b)
         \<and> ToString_value (map_of kvs ''name'') \<noteq> None))
   \<and> config (service (loadConfig U (HttpBody d) s)) = d"
proof (cases "\<exists>kvs. d = JObj kvs")
  case True
  then obtain kvs where d: "d = JObj kvs" by blast
  have "settled (loadConfig U (HttpBody d) s) = Inr () \<longleftrightarrow>
      (\<exists>msgs. validateConfig U (JObj kvs) = Inr msgs)
      \<and> ToString_value (map_of kvs ''name'') \<noteq> None"
    unfolding loadConfig_settled d by auto
  then show ?thesis
    unfolding validate_object d by (simp add: loadConfig_keeps_body)
next
  case False
  then have "settled (loadConfig U (HttpBody d) s) \<noteq> Inr ()"
    unfolding loadConfig_settled using validate_not_object[of d U] by blast
  with False show ?thesis by (simp add: loadConfig_keeps_body)
qed

text \<open>The amended C4 at the QA document with \<open>production\<close> set to a string.\<close>

theorem C4_presence_checked_types_not_witness:
  "map_of (with_field ''production'' (JStr ''yes'') qa_fields) ''production''
     = Some (JStr ''yes'')
   \<and> settled (loadConfig sample_url_parses
        (HttpBody (JObj (with_field ''production'' (JStr ''yes'') qa_fields))) new_service) = Inr ()
   \<and> config (service (loadConfig sample_url_parses
        (HttpBody (JObj (with_field ''production'' (JStr ''yes'') qa_fields))) new_service))
      = JObj (with_field ''production'' (JStr ''yes'') qa_fields)"
proof -
  have present: "\<forall>F \<in> set requiredFields.
      map_of (with_field ''production'' (JStr ''yes'') qa_fields) F \<noteq> None
      \<and> map_of (with_field ''production'' (JStr ''yes'') qa_fields) F \<noteq> Some JNull"
    by (simp add: requiredFields_def qa_fields_def with_field_def)
  have urls: "(\<exists>a. ToString_value (map_of (with_field ''production'' (JStr ''yes'') qa_fields)
                  ''apiUrl'') = Some a \<and> sample_url_parses a)
     \<and> (\<exists>b. ToString_value (map_of (with_field ''production'' (JStr ''yes'') qa_fields)
                  ''authUrl'') = Some b \<and> sample_url_parses b)
     \<and> ToString_value (map_of (with_field ''production'' (JStr ''yes'') qa_fields) ''name'')
         \<noteq> None"
    by (simp add: ToString_value_def qa_fields_def with_field_def sample_url_parses_def)
  have yes: "map_of (with_field ''production'' (JStr ''yes'') qa_fields) ''production''
     = Some (JStr ''yes'')"
    by (simp add: qa_fields_def with_field_def)
  from present urls yes show ?thesis
    using C4_presence_checked_types_not
      [of sample_url_parses "JObj (with_field ''production'' (JStr ''yes'') qa_fields)" new_service]
    by blast
qed

text \<open>
  C8, as stated, fails: for \<open>apiUrl\<close> equal to \<open>not a url\<close> the error that
  \<^verbatim>\<open>load()\<close> rejects with names neither the field nor the value.
\<close>

theorem C8_counterexample:
  "settled (loadConfig sample_url_parses
      (HttpBody (JObj (with_field ''apiUrl'' (JStr ''not a url'') qa_fields))) new_service)
     = Inl (Error ''Failed to load application configuration'')
   \<and> \<not> sublist ''not a url'' ''Failed to load application configuration''
   \<and> \<not> sublist ''apiUrl'' ''Failed to load application configuration''
   \<and> \<not> sublist ''API'' ''Failed to load application configuration''"
proof -
  have "\<not> sublist ''not a url'' ''Failed to load application configuration''"
    and "\<not> sublist ''apiUrl'' ''Failed to load application configuration''"
    and "\<not> sublist ''API'' ''Failed to load application configuration''"
    by code_simp+
  then show ?thesis by (simp add: loader_defs loader_scenarios)
qed

text \<open>
  C8, amended. The fields are \<open>apiUrl\<close> and \<open>authUrl\<close>. For a document with the five
  required fields present and not null and with string values \<open>a\<close> and \<open>b\<close> for the
  two: if both parse as URLs (and \<open>name\<close> converts to a string) \<^verbatim>\<open>load()\<close> resolves
  and \<^verbatim>\<open>getConfig\<close> returns the document; if \<open>a\<close> does not parse, validation throws
  "Invalid API URL: a"; if \<open>a\<close> parses and \<open>b\<close> does not, it throws
  "Invalid Auth URL: b"; in both failing cases \<^verbatim>\<open>load()\<close> logs that error and
  rejects with the fixed error "Failed to load application configuration".
\<close>

theorem C8_url_check:
  assumes "\<forall>F \<in> set requiredFields. map_of kvs F \<noteq> None \<and> map_of kvs F \<noteq> Some JNull"
    and "map_of kvs ''apiUrl'' = Some (JStr a)"
    and "map_of kvs ''authUrl'' = Some (JStr b)"
  shows "(U a \<and> U b \<and> ToString_value (map_of kvs ''name'') \<noteq> None \<longrightarrow>
            settled (loadConfig U (HttpBody (JObj kvs)) s) = Inr ()
            \<and> getConfig (service (loadConfig U (HttpBody (JObj kvs)) s)) = Inr (JObj kvs))
       \<and> (\<not> U a \<longrightarrow>
            validateConfig U (JObj kvs) = Inl (Error (''Invalid API URL: '' @ a))
            \<and> loadConfig U (HttpBody (JObj kvs)) s =
                load_failed (s\<lparr>config := JObj kvs\<rparr>) [] (Error (''Invalid API URL: '' @ a)))
       \<and> (U a \<and> \<not> U b \<longrightarrow>
            validateConfig U (JObj kvs) = Inl (Error (''Invalid Auth URL: '' @ b))
            \<and> loadConfig U (HttpBody (JObj kvs)) s =
                load_failed (s\<lparr>config := JObj kvs\<rparr>) [] (Error (''Invalid Auth URL: '' @ b)))"
proof -
  have req: "check_required (JObj kvs) requiredFields = Inr ()"
    using assms(1) by (simp add: check_required_object)
  have v: "validateConfig U (JObj kvs) =
      (if \<not> U a then Inl (Error (''Invalid API URL: '' @ a))
       else if \<not> U b then Inl (Error (''Invalid Auth URL: '' @ b))
       else Inr [ConsoleWarn ''[ConfigService] Configuration validation passed''])"
    using req assms(2,3)
    by (simp add: validateConfig_def isValidUrl_def throw_with_value_def ToString_value_def)
  show ?thesis
    by (auto simp: v loadConfig_def load_failed_def getConfig_def Let_def split: option.splits)
qed


text \<open>
  The amended C8 at the QA document, at the same document with \<open>not a url\<close> for
  \<open>apiUrl\<close>, and with a scheme-less address for \<open>authUrl\<close>.
\<close>

theorem C8_url_check_witness:
  "settled (loadConfig sample_url_parses (HttpBody (JObj qa_fields)) new_service) = Inr ()
   \<and> getConfig (service (loadConfig sample_url_parses (HttpBody (JObj qa_fields)) new_service))
       = Inr (JObj qa_fields)
   \<and> \<not> sample_url_parses ''not a url''
   \<and> validateConfig sample_url_parses
         (JObj (with_field ''apiUrl'' (JStr ''not a url'') qa_fields))
       = Inl (Error ''Invalid API URL: not a url'')
   \<and> validateConfig sample_url_parses
         (JObj (with_field ''authUrl'' (JStr ''auth-qa.example.com'') qa_fields))
       = Inl (Error ''Invalid Auth URL: auth-qa.example.com'')"
  using
    C8_url_check [of qa_fields "''https://api-qa.example.com''" "''https://auth-qa.example.com''"
      sample_url_parses new_service]
    C8_url_check [of "with_field ''apiUrl'' (JStr ''not a url'') qa_fields" "''not a url''"
      "''https://auth-qa.example.com''" sample_url_parses new_service]
    C8_url_check [of "with_field ''authUrl'' (JStr ''auth-qa.example.com'') qa_fields"
      "''https://api-qa.example.com''" "''auth-qa.example.com''" sample_url_parses new_service]
  by (simp add: requiredFields_def qa_fields_def with_field_def sample_url_parses_def
        ToString_value_def)

section \<open>Properties of the deployment scripts\<close>

lemmas mjs_defs = deploy_mjs_def deployment_steps_mjs_def invalidate_mjs_def
  swap_config_mjs_def copyFileSync_def deployment_failed_def finish_def

lemmas sh_defs = deploy_sh_def deployment_steps_sh_def invalidate_sh_def swap_config_sh_def
  cp_def finish_def echo_e_def

lemmas state_defs = script_start_def configured_def swapping_def assign_def inherit_def
  child_environment_def

lemmas path_defs = sourceConfig_def targetConfig_def distPath_def s3SyncCommand_def
  SOURCE_CONFIG_def TARGET_CONFIG_def sync_command_sh_def configFile_def bucketName_def
  build_command_def invalidation_command_def dirname_def basename_def quoted_def
  double_quoted_def validEnvironments_def

lemmas parse_defs = envVars_def add_line_def trim_def white_space_def

lemmas deploy_scenarios = checkout_def env_aws_lines_def built_def sample_exec_def
  sample_source_def no_variables_def sample_escapes_def

text \<open>
  Stripping leaves nothing to strip, and \<^verbatim>\<open>echo -e\<close> writes a text without a
  backslash as it is.
\<close>

lemma strip_start_clean:
  "find (\<lambda>w. w \<noteq> [] \<and> prefix w (strip_start seqs s)) seqs = None"
  by (induction seqs s rule: strip_start.induct)
     (simp_all add: find_None_iff split: option.splits)

lemma echo_e_plain: "CHR 0x5C \<notin> set text \<Longrightarrow> echo_e escapes text = text"
  by (simp add: echo_e_def)

text \<open>
  The examination of the environment: a value outside \<open>dev\<close>, \<open>qa\<close>, \<open>staging\<close>,
  \<open>prod\<close> ends the run before anything is started; a value inside, with the operator
  file in order, lets the run reach the build, which is the first thing started.
\<close>

lemma mjs_rejects:
  assumes "argv2 \<notin> Some ` set validEnvironments"
  shows "status (deploy_mjs exec dir penv argv2 t0) = 1"
    and "calls (deploy_mjs exec dir penv argv2 t0) = []"
    and "files (deploy_mjs exec dir penv argv2 t0) = t0"
    and "argv2 = None \<or> argv2 = Some [] \<Longrightarrow>
           printed (deploy_mjs exec dir penv argv2 t0) = [''No environment specified'']"
    and "argv2 = Some e \<Longrightarrow> e \<noteq> [] \<Longrightarrow> printed (deploy_mjs exec dir penv argv2 t0) =
           [''Invalid environment: '' @ quoted e, ''Must be one of: dev, qa, staging, prod'']"
  using assms by (auto simp: deploy_mjs_def finish_def split: option.splits)

lemma mjs_first_call:
  assumes "e \<in> set validEnvironments"
    and "t0 (dir @ ''/.env.aws'') = Some (File content)"
    and "envVars content ''UNIQUE_ID'' = Some u" and "u \<noteq> []"
  shows "take 1 (calls (deploy_mjs exec dir penv (Some e) t0)) = [(build_command, penv, t0)]"
proof -
  have ne: "e \<noteq> []" using assms(1) by (auto simp: validEnvironments_def)
  show ?thesis
    using assms ne
    by (simp add: deploy_mjs_def deployment_steps_mjs_def deployment_failed_def
          invalidate_mjs_def finish_def split: prod.splits sum.splits option.splits)
qed

lemma sh_rejects:
  assumes "t0 ''.env.aws'' = Some (File content)"
    and "source content (script_start arg1 inherited) = (0, st)"
    and "value_of st ''ENVIRONMENT'' \<notin> set validEnvironments"
  shows "status (deploy_sh exec source escapes arg1 inherited t0) = 1"
    and "calls (deploy_sh exec source escapes arg1 inherited t0) = []"
    and "files (deploy_sh exec source escapes arg1 inherited t0) = t0"
    and "value_of st ''ENVIRONMENT'' = [] \<Longrightarrow>
           printed (deploy_sh exec source escapes arg1 inherited t0) =
             [''Error: No environment specified'']"
    and "value_of st ''ENVIRONMENT'' \<noteq> [] \<Longrightarrow>
           printed (deploy_sh exec source escapes arg1 inherited t0) =
             [echo_e escapes (''Error: Invalid environment '' @ quoted (value_of st ''ENVIRONMENT'')),
              ''Must be one of: dev, qa, staging, prod'']"
  using assms by (auto simp: deploy_sh_def finish_def validEnvironments_def)

lemma sh_first_call:
  assumes "t0 ''.env.aws'' = Some (File content)"
    and "source content (script_start arg1 inherited) = (0, st)"
    and "value_of st ''ENVIRONMENT'' \<in> set validEnvironments"
  shows "take 1 (calls (deploy_sh exec source escapes arg1 inherited t0))
           = [(build_command, child_environment (configured st), t0)]"
proof -
  have ne: "value_of st ''ENVIRONMENT'' \<noteq> []"
    using assms(3) by (auto simp: validEnvironments_def)
  have ok: "value_of st ''ENVIRONMENT'' \<in> set [''dev'', ''qa'', ''staging'', ''prod'']"
    using assms(3) by (simp add: validEnvironments_def)
  show ?thesis
    using assms(1,2) ne ok
    by (simp add: deploy_sh_def deployment_steps_sh_def invalidate_sh_def finish_def
          split: prod.splits sum.splits)
qed

lemma quoted_plain: "CHR 0x5C \<notin> set v \<Longrightarrow> CHR 0x5C \<notin> set (''Error: Invalid environment '' @ quoted v)"
  by (simp add: quoted_def)

text \<open>
  C2, as stated, fails: \<open>production\<close>, a member of the set the claim names, is rejected
  by both scripts as an invalid environment.
\<close>

theorem C2_counterexample:
  "status (deploy_mjs (sample_exec ''/repo/'' []) ''/repo'' operator_environment
      (Some ''production'') (checkout ''/repo/'' env_aws_lines)) = 1
   \<and> printed (deploy_mjs (sample_exec ''/repo/'' []) ''/repo'' operator_environment
      (Some ''production'') (checkout ''/repo/'' env_aws_lines))
      = [''Invalid environment: '' @ quoted ''production'',
         ''Must be one of: dev, qa, staging, prod'']
   \<and> calls (deploy_mjs (sample_exec ''/repo/'' []) ''/repo'' operator_environment
      (Some ''production'') (checkout ''/repo/'' env_aws_lines)) = []
   \<and> status (deploy_sh (sample_exec [] []) sample_source sample_escapes ''production''
      operator_environment (checkout [] env_aws_lines)) = 1
   \<and> calls (deploy_sh (sample_exec [] []) sample_source sample_escapes ''production''
      operator_environment (checkout [] env_aws_lines)) = []"
  by (simp add: deploy_mjs_def deploy_sh_def finish_def validEnvironments_def deploy_scenarios
        parse_defs state_defs)


text \<open>
  C2, amended. The accepted set is \<open>dev\<close>, \<open>qa\<close>, \<open>staging\<close>, \<open>prod\<close>. In
  \<^verbatim>\<open>deploy.mjs\<close> every other argument ends the run with status 1, nothing started
  and no file changed: an absent or empty one with the message "No environment
  specified", any other with "Invalid environment: '...'"; an accepted one, with
  \<^verbatim>\<open>.env.aws\<close> defining \<open>UNIQUE_ID\<close>, reaches the build. In \<^verbatim>\<open>deploy.sh\<close>, once
  \<^verbatim>\<open>.env.aws\<close> has been found and sourced, the same holds of the value of
  \<open>ENVIRONMENT\<close>: an empty one gives "Error: No environment specified", any other
  outside the set gives the line "Error: Invalid environment '...'" as
  \<^verbatim>\<open>echo -e\<close> writes it, which for a value without a backslash is that text itself.
\<close>

theorem C2_environment_gate:
  "(argv2 \<notin> Some ` set validEnvironments \<longrightarrow>
      status (deploy_mjs exec dir penv argv2 t0) = 1
      \<and> calls (deploy_mjs exec dir penv argv2 t0) = []
      \<and> files (deploy_mjs exec dir penv argv2 t0) = t0
      \<and> (argv2 = None \<or> argv2 = Some [] \<longrightarrow>
            printed (deploy_mjs exec dir penv argv2 t0) = [''No environment specified''])
      \<and> (\<forall>e. argv2 = Some e \<and> e \<noteq> [] \<longrightarrow>
            printed (deploy_mjs exec dir penv argv2 t0) =
              [''Invalid environment: '' @ quoted e, ''Must be one of: dev, qa, staging, prod'']))
   \<and> (env \<in> set validEnvironments \<and> t0 (dir @ ''/.env.aws'') = Some (File content)
        \<and> envVars content ''UNIQUE_ID'' = Some u \<and> u \<noteq> [] \<longrightarrow>
      take 1 (calls (deploy_mjs exec dir penv (Some env) t0)) = [(build_command, penv, t0)])
   \<and> (t0 ''.env.aws'' = Some (File content') \<and>
        source content' (script_start arg1 inherited) = (0, st) \<longrightarrow>
      (value_of st ''ENVIRONMENT'' \<notin> set validEnvironments \<longrightarrow>
         status (deploy_sh exec source escapes arg1 inherited t0) = 1
         \<and> calls (deploy_sh exec source escapes arg1 inherited t0) = []
         \<and> files (deploy_sh exec source escapes arg1 inherited t0) = t0
         \<and> (value_of st ''ENVIRONMENT'' = [] \<longrightarrow>
               printed (deploy_sh exec source escapes arg1 inherited t0) =
                 [''Error: No environment specified''])
         \<and> (value_of st ''ENVIRONMENT'' \<noteq> [] \<longrightarrow>
               printed (deploy_sh exec source escapes arg1 inherited t0) =
                 [echo_e escapes
                    (''Error: Invalid environment '' @ quoted (value_of st ''ENVIRONMENT'')),
                  ''Must be one of: dev, qa, staging, prod''])
         \<and> (value_of st ''ENVIRONMENT'' \<noteq> [] \<and> CHR 0x5C \<notin> set (value_of st ''ENVIRONMENT'') \<longrightarrow>
               printed (deploy_sh exec source escapes arg1 inherited t0) =
                 [''Error: Invalid environment '' @ quoted (value_of st ''ENVIRONMENT''),
                  ''Must be one of: dev, qa, staging, prod'']))
      \<and> (value_of st ''ENVIRONMENT'' \<in> set validEnvironments \<longrightarrow>
         take 1 (calls (deploy_sh exec source escapes arg1 inherited t0))
           = [(build_command, child_environment (configured st), t0)]))"
proof -
  have mjs_no: "argv2 \<notin> Some ` set validEnvironments \<longrightarrow>
      status (deploy_mjs exec dir penv argv2 t0) = 1
      \<and> calls (deploy_mjs exec dir penv argv2 t0) = []
      \<and> files (deploy_mjs exec dir penv argv2 t0) = t0
      \<and> (argv2 = None \<or> argv2 = Some [] \<longrightarrow>
            printed (deploy_mjs exec dir penv argv2 t0) = [''No environment specified''])
      \<and> (\<forall>e. argv2 = Some e \<and> e \<noteq> [] \<longrightarrow>
            printed (deploy_mjs exec dir penv argv2 t0) =
              [''Invalid environment: '' @ quoted e, ''Must be one of: dev, qa, staging, prod''])"
    using mjs_rejects[where ?argv2.0 = argv2 and exec = exec and dir = dir and penv = penv
        and ?t0.0 = t0]
    by blast
  have mjs_yes: "env \<in> set validEnvironments \<and> t0 (dir @ ''/.env.aws'') = Some (File content)
        \<and> envVars content ''UNIQUE_ID'' = Some u \<and> u \<noteq> [] \<longrightarrow>
      take 1 (calls (deploy_mjs exec dir penv (Some env) t0)) = [(build_command, penv, t0)]"
    using mjs_first_call by blast
  have sh_no: "t0 ''.env.aws'' = Some (File content') \<Longrightarrow>
      source content' (script_start arg1 inherited) = (0, st) \<Longrightarrow>
      value_of st ''ENVIRONMENT'' \<notin> set validEnvironments \<Longrightarrow>
         status (deploy_sh exec source escapes arg1 inherited t0) = 1
         \<and> calls (deploy_sh exec source escapes arg1 inherited t0) = []
         \<and> files (deploy_sh exec source escapes arg1 inherited t0) = t0
         \<and> (value_of st ''ENVIRONMENT'' = [] \<longrightarrow>
               printed (deploy_sh exec source escapes arg1 inherited t0) =
                 [''Error: No environment specified''])
         \<and> (value_of st ''ENVIRONMENT'' \<noteq> [] \<longrightarrow>
               printed (deploy_sh exec source escapes arg1 inherited t0) =
                 [echo_e escapes
                    (''Error: Invalid environment '' @ quoted (value_of st ''ENVIRONMENT'')),
                  ''Must be one of: dev, qa, staging, prod''])"
    using sh_rejects[where content = content' and st = st and exec = exec
        and source = source and escapes = escapes and ?arg1.0 = arg1
        and inherited = inherited and ?t0.0 = t0]
    by blast
  have plain: "CHR 0x5C \<notin> set (value_of st ''ENVIRONMENT'') \<Longrightarrow>
      echo_e escapes (''Error: Invalid environment '' @ quoted (value_of st ''ENVIRONMENT''))
        = ''Error: Invalid environment '' @ quoted (value_of st ''ENVIRONMENT'')"
    by (rule echo_e_plain) (rule quoted_plain)
  have sh_yes: "t0 ''.env.aws'' = Some (File content') \<Longrightarrow>
      source content' (script_start arg1 inherited) = (0, st) \<Longrightarrow>
      value_of st ''ENVIRONMENT'' \<in> set validEnvironments \<Longrightarrow>
         take 1 (calls (deploy_sh exec source escapes arg1 inherited t0))
           = [(build_command, child_environment (configured st), t0)]"
    by (rule sh_first_call)
  from mjs_no mjs_yes sh_no sh_yes plain show ?thesis by metis
qed


text \<open>The sample sourcing, and what the sample operator file defines.\<close>

lemma sample_source_state:
  "sample_source content st = (0, snd (sample_source content st))"
  by (simp add: sample_source_def)

lemma sample_source_value:
  "value_of (snd (sample_source content st)) name =
     (case envVars content name of Some v \<Rightarrow> v | None \<Rightarrow> value_of st name)"
  by (simp add: sample_source_def)


lemma script_start_ENVIRONMENT:
  "value_of (script_start arg1 inherited) ''ENVIRONMENT'' = arg1"
  by (simp add: script_start_def assign_def)

lemma sample_lines:
  "envVars (join_with [CHR 0x0A] env_aws_lines) ''UNIQUE_ID'' = Some ''abc123''"
  "envVars (join_with [CHR 0x0A] env_aws_lines) ''CLOUDFRONT_DISTRIBUTION_ID'' = Some ''E2EXAMPLE''"
  "envVars (join_with [CHR 0x0A] env_aws_lines) ''ENVIRONMENT'' = None"
  by (simp_all add: env_aws_lines_def parse_defs)

text \<open>
  The amended C2 at \<open>staging-typo\<close>, at no argument and at \<open>prod\<close> for the Node
  script, and at \<open>development\<close> and at no argument for the shell script.
\<close>

theorem C2_environment_gate_witness:
  "Some ''staging-typo'' \<notin> Some ` set validEnvironments
   \<and> status (deploy_mjs (sample_exec ''/repo/'' []) ''/repo'' operator_environment
        (Some ''staging-typo'') (checkout ''/repo/'' env_aws_lines)) = 1
   \<and> calls (deploy_mjs (sample_exec ''/repo/'' []) ''/repo'' operator_environment
        (Some ''staging-typo'') (checkout ''/repo/'' env_aws_lines)) = []
   \<and> printed (deploy_mjs (sample_exec ''/repo/'' []) ''/repo'' operator_environment
        (Some ''staging-typo'') (checkout ''/repo/'' env_aws_lines))
       = [''Invalid environment: '' @ quoted ''staging-typo'',
          ''Must be one of: dev, qa, staging, prod'']
   \<and> printed (deploy_mjs (sample_exec ''/repo/'' []) ''/repo'' operator_environment
        None (checkout ''/repo/'' env_aws_lines)) = [''No environment specified'']
   \<and> ''prod'' \<in> set validEnvironments
   \<and> take 1 (calls (deploy_mjs (sample_exec ''/repo/'' []) ''/repo'' operator_environment
        (Some ''prod'') (checkout ''/repo/'' env_aws_lines)))
       = [(build_command, operator_environment, checkout ''/repo/'' env_aws_lines)]
   \<and> status (deploy_sh (sample_exec [] []) sample_source sample_escapes ''development''
        operator_environment (checkout [] env_aws_lines)) = 1
   \<and> calls (deploy_sh (sample_exec [] []) sample_source sample_escapes ''development''
        operator_environment (checkout [] env_aws_lines)) = []
   \<and> printed (deploy_sh (sample_exec [] []) sample_source sample_escapes ''development''
        operator_environment (checkout [] env_aws_lines))
       = [''Error: Invalid environment '' @ quoted ''development'',
          ''Must be one of: dev, qa, staging, prod'']
   \<and> printed (deploy_sh (sample_exec [] []) sample_source sample_escapes []
        operator_environment (checkout [] env_aws_lines))
       = [''Error: No environment specified'']"
proof -
  have env_file: "checkout ''/repo/'' env_aws_lines (''/repo'' @ ''/.env.aws'')
      = Some (File (join_with [CHR 0x0A] env_aws_lines))"
    by (simp add: checkout_def)
  have env_file_sh: "checkout [] env_aws_lines ''.env.aws''
      = Some (File (join_with [CHR 0x0A] env_aws_lines))"
    by (simp add: checkout_def)
  note gate_mjs = C2_environment_gate
      [where exec = "sample_exec ''/repo/'' []" and dir = "''/repo''"
         and penv = operator_environment and ?t0.0 = "checkout ''/repo/'' env_aws_lines"
         and env = "''prod''" and content = "join_with [CHR 0x0A] env_aws_lines"
         and u = "''abc123''"]
  note gate_sh = C2_environment_gate
      [where ?t0.0 = "checkout [] env_aws_lines"
         and content' = "join_with [CHR 0x0A] env_aws_lines" and source = sample_source
         and escapes = sample_escapes and inherited = operator_environment
         and exec = "sample_exec [] []"]
  have typo: "Some ''staging-typo'' \<notin> Some ` set validEnvironments"
    and none: "None \<notin> Some ` set validEnvironments"
    and prod: "''prod'' \<in> set validEnvironments"
    by (simp_all add: validEnvironments_def)
  have m1: "status (deploy_mjs (sample_exec ''/repo/'' []) ''/repo'' operator_environment
        (Some ''staging-typo'') (checkout ''/repo/'' env_aws_lines)) = 1
   \<and> calls (deploy_mjs (sample_exec ''/repo/'' []) ''/repo'' operator_environment
        (Some ''staging-typo'') (checkout ''/repo/'' env_aws_lines)) = []
   \<and> printed (deploy_mjs (sample_exec ''/repo/'' []) ''/repo'' operator_environment
        (Some ''staging-typo'') (checkout ''/repo/'' env_aws_lines))
       = [''Invalid environment: '' @ quoted ''staging-typo'',
          ''Must be one of: dev, qa, staging, prod'']"
    using gate_mjs [where ?argv2.0 = "Some ''staging-typo''"] typo by simp
  have m2: "printed (deploy_mjs (sample_exec ''/repo/'' []) ''/repo'' operator_environment
        None (checkout ''/repo/'' env_aws_lines)) = [''No environment specified'']"
    using gate_mjs [where ?argv2.0 = None] none by simp
  have m3: "take 1 (calls (deploy_mjs (sample_exec ''/repo/'' []) ''/repo'' operator_environment
        (Some ''prod'') (checkout ''/repo/'' env_aws_lines)))
       = [(build_command, operator_environment, checkout ''/repo/'' env_aws_lines)]"
    using gate_mjs [where ?argv2.0 = None] prod env_file sample_lines(1) by simp
  define st1 where "st1 = snd (sample_source (join_with [CHR 0x0A] env_aws_lines)
      (script_start ''development'' operator_environment))"
  define st2 where "st2 = snd (sample_source (join_with [CHR 0x0A] env_aws_lines)
      (script_start [] operator_environment))"
  have src1: "sample_source (join_with [CHR 0x0A] env_aws_lines)
      (script_start ''development'' operator_environment) = (0, st1)"
    and src2: "sample_source (join_with [CHR 0x0A] env_aws_lines)
      (script_start [] operator_environment) = (0, st2)"
    unfolding st1_def st2_def by (rule sample_source_state)+
  have v1: "value_of st1 ''ENVIRONMENT'' = ''development''"
    and v2: "value_of st2 ''ENVIRONMENT'' = []"
    unfolding st1_def st2_def
    by (simp_all add: sample_source_value sample_lines script_start_ENVIRONMENT)
  have out1: "value_of st1 ''ENVIRONMENT'' \<notin> set validEnvironments"
    and ne1: "value_of st1 ''ENVIRONMENT'' \<noteq> []"
    and plain1: "CHR 0x5C \<notin> set (value_of st1 ''ENVIRONMENT'')"
    and out2: "value_of st2 ''ENVIRONMENT'' \<notin> set validEnvironments"
    by (simp_all add: v1 v2 validEnvironments_def)
  have s1: "status (deploy_sh (sample_exec [] []) sample_source sample_escapes ''development''
        operator_environment (checkout [] env_aws_lines)) = 1
   \<and> calls (deploy_sh (sample_exec [] []) sample_source sample_escapes ''development''
        operator_environment (checkout [] env_aws_lines)) = []
   \<and> printed (deploy_sh (sample_exec [] []) sample_source sample_escapes ''development''
        operator_environment (checkout [] env_aws_lines))
       = [''Error: Invalid environment '' @ quoted (value_of st1 ''ENVIRONMENT''),
          ''Must be one of: dev, qa, staging, prod'']"
    using gate_sh [where ?arg1.0 = "''development''" and st = st1]
      env_file_sh src1 out1 ne1 plain1
    by blast
  have s2: "printed (deploy_sh (sample_exec [] []) sample_source sample_escapes []
        operator_environment (checkout [] env_aws_lines))
       = [''Error: No environment specified'']"
    using gate_sh [where ?arg1.0 = "[]" and st = st2] env_file_sh src2 out2 v2
    by blast
  from typo prod m1 m2 m3 s1 s2 show ?thesis unfolding v1 by blast
qed


text \<open>
  The name of an environment's configuration file contains the environment, and the
  message about a missing file holds no backslash.
\<close>

lemma environment_in_configFile:
  "environment \<in> set validEnvironments \<Longrightarrow> sublist environment (configFile environment)"
proof (cases "environment = ''prod''")
  case True
  have "sublist ''prod'' ''environment.production.json''" by code_simp
  with True show ?thesis by (simp add: configFile_def)
next
  case False
  then have "configFile environment = ''environment.'' @ environment @ ''.json''"
    by (simp add: configFile_def)
  then show ?thesis by (simp only: sublist_appendI)
qed

lemma sublist_in_tail: "sublist xs zs \<Longrightarrow> sublist xs (ys @ zs)"
  by (auto simp: sublist_def) (metis append.assoc)

lemma missing_message_plain:
  "environment \<in> set validEnvironments \<Longrightarrow>
     CHR 0x5C \<notin> set (''Error: Config file not found: '' @ SOURCE_CONFIG environment)"
  by (auto simp: validEnvironments_def SOURCE_CONFIG_def configFile_def)

text \<open>
  C5. If, after a successful build, the configuration document of the requested
  environment does not exist, the deployment fails with status 1; the last line printed
  is "Config file not found:" followed by the expected path, which contains the
  environment; the tree is left as the build produced it, with no document copied into
  it, and nothing is uploaded. This holds of both scripts.
\<close>

theorem C5_missing_source_configuration:
  "(environment \<in> set validEnvironments \<and> t0 (dir @ ''/.env.aws'') = Some (File content)
      \<and> envVars content ''UNIQUE_ID'' = Some u \<and> u \<noteq> []
      \<and> exec build_command penv t0 = (0, t1) \<and> t1 (sourceConfig dir environment) = None \<longrightarrow>
      status (deploy_mjs exec dir penv (Some environment) t0) = 1
      \<and> last (printed (deploy_mjs exec dir penv (Some environment) t0))
          = ''Config file not found: '' @ sourceConfig dir environment
      \<and> sublist environment (last (printed (deploy_mjs exec dir penv (Some environment) t0)))
      \<and> calls (deploy_mjs exec dir penv (Some environment) t0) = [(build_command, penv, t0)]
      \<and> files (deploy_mjs exec dir penv (Some environment) t0) = t1)
   \<and> (t0 ''.env.aws'' = Some (File content')
      \<and> source content' (script_start arg1 inherited) = (0, st)
      \<and> value_of st ''ENVIRONMENT'' \<in> set validEnvironments
      \<and> exec build_command (child_environment (configured st)) t0 = (0, t1)
      \<and> t1 (SOURCE_CONFIG (value_of st ''ENVIRONMENT'')) = None \<longrightarrow>
      status (deploy_sh exec source escapes arg1 inherited t0) = 1
      \<and> last (printed (deploy_sh exec source escapes arg1 inherited t0))
          = ''Error: Config file not found: '' @ SOURCE_CONFIG (value_of st ''ENVIRONMENT'')
      \<and> sublist (value_of st ''ENVIRONMENT'')
           (last (printed (deploy_sh exec source escapes arg1 inherited t0)))
      \<and> calls (deploy_sh exec source escapes arg1 inherited t0)
          = [(build_command, child_environment (configured st), t0)]
      \<and> files (deploy_sh exec source escapes arg1 inherited t0) = t1)"
proof (intro conjI impI)
  assume a: "environment \<in> set validEnvironments \<and> t0 (dir @ ''/.env.aws'') = Some (File content)
      \<and> envVars content ''UNIQUE_ID'' = Some u \<and> u \<noteq> []
      \<and> exec build_command penv t0 = (0, t1) \<and> t1 (sourceConfig dir environment) = None"
  then have ne: "environment \<noteq> []" by (auto simp: validEnvironments_def)
  have run: "deploy_mjs exec dir penv (Some environment) t0 =
      finish 1 ([''Environment:  '' @ environment,
                 ''Bucket:       '' @ bucketName environment u,
                 ''Config:       '' @ configFile environment,
                 ''[1/4] Building Angular application...'',
                 ''Build completed successfully'',
                 ''[2/4] Swapping environment configuration...'',
                 ''Deployment failed!'',
                 ''Config file not found: '' @ sourceConfig dir environment])
        [(build_command, penv, t0)] t1"
    using a ne
    by (simp add: deploy_mjs_def deployment_steps_mjs_def swap_config_mjs_def
          deployment_failed_def)
  have named: "sublist environment (''Config file not found: '' @ sourceConfig dir environment)"
    unfolding sourceConfig_def using a
    by (intro sublist_in_tail environment_in_configFile) simp
  show "status (deploy_mjs exec dir penv (Some environment) t0) = 1"
    and "last (printed (deploy_mjs exec dir penv (Some environment) t0))
          = ''Config file not found: '' @ sourceConfig dir environment"
    and "calls (deploy_mjs exec dir penv (Some environment) t0) = [(build_command, penv, t0)]"
    and "files (deploy_mjs exec dir penv (Some environment) t0) = t1"
    by (simp_all add: run finish_def)
  show "sublist environment (last (printed (deploy_mjs exec dir penv (Some environment) t0)))"
    using named by (simp add: run finish_def)
next
  assume b: "t0 ''.env.aws'' = Some (File content')
      \<and> source content' (script_start arg1 inherited) = (0, st)
      \<and> value_of st ''ENVIRONMENT'' \<in> set validEnvironments
      \<and> exec build_command (child_environment (configured st)) t0 = (0, t1)
      \<and> t1 (SOURCE_CONFIG (value_of st ''ENVIRONMENT'')) = None"
  then have ne: "value_of st ''ENVIRONMENT'' \<noteq> []" by (auto simp: validEnvironments_def)
  have ok: "value_of st ''ENVIRONMENT'' \<in> set [''dev'', ''qa'', ''staging'', ''prod'']"
    using b by (simp add: validEnvironments_def)
  have plain: "echo_e escapes
      (''Error: Config file not found: '' @ SOURCE_CONFIG (value_of st ''ENVIRONMENT''))
      = ''Error: Config file not found: '' @ SOURCE_CONFIG (value_of st ''ENVIRONMENT'')"
    using b by (intro echo_e_plain missing_message_plain) simp
  have run0: "deploy_sh exec source escapes arg1 inherited t0 =
      finish 1 ([''Environment:  '' @ value_of st ''ENVIRONMENT'',
                 ''Bucket:       '' @
                   bucketName (value_of st ''ENVIRONMENT'') (value_of st ''UNIQUE_ID''),
                 ''Config:       '' @ configFile (value_of st ''ENVIRONMENT''),
                 ''[1/4] Building Angular application...'',
                 ''Build completed successfully'',
                 ''[2/4] Swapping environment configuration...'',
                 echo_e escapes (''Error: Config file not found: ''
                   @ SOURCE_CONFIG (value_of st ''ENVIRONMENT''))])
        [(build_command, child_environment (configured st), t0)] t1"
    using b ne ok
    by (simp add: deploy_sh_def deployment_steps_sh_def swap_config_sh_def)
  have run: "deploy_sh exec source escapes arg1 inherited t0 =
      finish 1 ([''Environment:  '' @ value_of st ''ENVIRONMENT'',
                 ''Bucket:       '' @
                   bucketName (value_of st ''ENVIRONMENT'') (value_of st ''UNIQUE_ID''),
                 ''Config:       '' @ configFile (value_of st ''ENVIRONMENT''),
                 ''[1/4] Building Angular application...'',
                 ''Build completed successfully'',
                 ''[2/4] Swapping environment configuration...'',
                 ''Error: Config file not found: '' @ SOURCE_CONFIG (value_of st ''ENVIRONMENT'')])
        [(build_command, child_environment (configured st), t0)] t1"
    using run0 by (simp only: plain)
  have named: "sublist (value_of st ''ENVIRONMENT'')
      (''Error: Config file not found: '' @ SOURCE_CONFIG (value_of st ''ENVIRONMENT''))"
    unfolding SOURCE_CONFIG_def using b
    by (intro sublist_in_tail environment_in_configFile) simp
  show "status (deploy_sh exec source escapes arg1 inherited t0) = 1"
    and "last (printed (deploy_sh exec source escapes arg1 inherited t0))
          = ''Error: Config file not found: '' @ SOURCE_CONFIG (value_of st ''ENVIRONMENT'')"
    and "calls (deploy_sh exec source escapes arg1 inherited t0)
          = [(build_command, child_environment (configured st), t0)]"
    and "files (deploy_sh exec source escapes arg1 inherited t0) = t1"
    by (simp_all add: run finish_def)
  show "sublist (value_of st ''ENVIRONMENT'')
      (last (printed (deploy_sh exec source escapes arg1 inherited t0)))"
    using named by (simp add: run finish_def)
qed


text \<open>C5 at the environment \<open>qa\<close>, for which the checkout has no document.\<close>

theorem C5_missing_source_configuration_witness:
  "''qa'' \<in> set validEnvironments
   \<and> built ''/repo/'' (checkout ''/repo/'' env_aws_lines) (sourceConfig ''/repo'' ''qa'') = None
   \<and> status (deploy_mjs (sample_exec ''/repo/'' []) ''/repo'' operator_environment (Some ''qa'')
        (checkout ''/repo/'' env_aws_lines)) = 1
   \<and> last (printed (deploy_mjs (sample_exec ''/repo/'' []) ''/repo'' operator_environment
        (Some ''qa'') (checkout ''/repo/'' env_aws_lines)))
       = ''Config file not found: /repo/src/assets/config/environment.qa.json''
   \<and> files (deploy_mjs (sample_exec ''/repo/'' []) ''/repo'' operator_environment (Some ''qa'')
        (checkout ''/repo/'' env_aws_lines)) = built ''/repo/'' (checkout ''/repo/'' env_aws_lines)
   \<and> status (deploy_sh (sample_exec [] []) sample_source sample_escapes ''qa''
        operator_environment (checkout [] env_aws_lines)) = 1
   \<and> last (printed (deploy_sh (sample_exec [] []) sample_source sample_escapes ''qa''
        operator_environment (checkout [] env_aws_lines)))
       = ''Error: Config file not found: src/assets/config/environment.qa.json''
   \<and> map fst (calls (deploy_sh (sample_exec [] []) sample_source sample_escapes ''qa''
        operator_environment (checkout [] env_aws_lines))) = [build_command]
   \<and> files (deploy_sh (sample_exec [] []) sample_source sample_escapes ''qa''
        operator_environment (checkout [] env_aws_lines)) = built [] (checkout [] env_aws_lines)"
proof -
  have qa: "''qa'' \<in> set validEnvironments" by (simp add: validEnvironments_def)
  have env_file: "checkout ''/repo/'' env_aws_lines (''/repo'' @ ''/.env.aws'')
      = Some (File (join_with [CHR 0x0A] env_aws_lines))"
    by (simp add: checkout_def)
  have build: "sample_exec ''/repo/'' [] build_command operator_environment
      (checkout ''/repo/'' env_aws_lines)
      = (0, built ''/repo/'' (checkout ''/repo/'' env_aws_lines))"
    by (simp add: sample_exec_def)
  have missing: "built ''/repo/'' (checkout ''/repo/'' env_aws_lines) (sourceConfig ''/repo'' ''qa'')
      = None"
    by (simp add: built_def checkout_def sourceConfig_def configFile_def)
  have ne: "''abc123'' \<noteq> []" by simp
  have m: "status (deploy_mjs (sample_exec ''/repo/'' []) ''/repo'' operator_environment
        (Some ''qa'') (checkout ''/repo/'' env_aws_lines)) = 1
   \<and> last (printed (deploy_mjs (sample_exec ''/repo/'' []) ''/repo'' operator_environment
        (Some ''qa'') (checkout ''/repo/'' env_aws_lines)))
       = ''Config file not found: '' @ sourceConfig ''/repo'' ''qa''
   \<and> files (deploy_mjs (sample_exec ''/repo/'' []) ''/repo'' operator_environment (Some ''qa'')
        (checkout ''/repo/'' env_aws_lines)) = built ''/repo/'' (checkout ''/repo/'' env_aws_lines)"
    using C5_missing_source_configuration
      [where environment = "''qa''" and exec = "sample_exec ''/repo/'' []"
         and dir = "''/repo''" and penv = operator_environment
         and ?t0.0 = "checkout ''/repo/'' env_aws_lines"
         and content = "join_with [CHR 0x0A] env_aws_lines" and u = "''abc123''"
         and ?t1.0 = "built ''/repo/'' (checkout ''/repo/'' env_aws_lines)"]
      qa env_file sample_lines(1) ne build missing
    by blast
  define st where "st = snd (sample_source (join_with [CHR 0x0A] env_aws_lines)
      (script_start ''qa'' operator_environment))"
  have env_file_sh: "checkout [] env_aws_lines ''.env.aws''
      = Some (File (join_with [CHR 0x0A] env_aws_lines))"
    by (simp add: checkout_def)
  have src: "sample_source (join_with [CHR 0x0A] env_aws_lines)
      (script_start ''qa'' operator_environment) = (0, st)"
    unfolding st_def by (rule sample_source_state)
  have v: "value_of st ''ENVIRONMENT'' = ''qa''"
    unfolding st_def
    by (simp add: sample_source_value sample_lines script_start_ENVIRONMENT)
  have valid: "value_of st ''ENVIRONMENT'' \<in> set validEnvironments"
    by (simp add: v validEnvironments_def)
  have build_sh: "sample_exec [] [] build_command (child_environment (configured st))
      (checkout [] env_aws_lines) = (0, built [] (checkout [] env_aws_lines))"
    by (simp add: sample_exec_def)
  have missing_sh: "built [] (checkout [] env_aws_lines)
      (SOURCE_CONFIG (value_of st ''ENVIRONMENT'')) = None"
    by (simp add: v built_def checkout_def SOURCE_CONFIG_def configFile_def)
  have sh: "status (deploy_sh (sample_exec [] []) sample_source sample_escapes ''qa''
        operator_environment (checkout [] env_aws_lines)) = 1
   \<and> last (printed (deploy_sh (sample_exec [] []) sample_source sample_escapes ''qa''
        operator_environment (checkout [] env_aws_lines)))
       = ''Error: Config file not found: '' @ SOURCE_CONFIG (value_of st ''ENVIRONMENT'')
   \<and> calls (deploy_sh (sample_exec [] []) sample_source sample_escapes ''qa''
        operator_environment (checkout [] env_aws_lines))
       = [(build_command, child_environment (configured st), checkout [] env_aws_lines)]
   \<and> files (deploy_sh (sample_exec [] []) sample_source sample_escapes ''qa''
        operator_environment (checkout [] env_aws_lines)) = built [] (checkout [] env_aws_lines)"
    using C5_missing_source_configuration
      [where ?t0.0 = "checkout [] env_aws_lines"
         and content' = "join_with [CHR 0x0A] env_aws_lines" and source = sample_source
         and escapes = sample_escapes and inherited = operator_environment
         and ?arg1.0 = "''qa''" and exec = "sample_exec [] []" and st = st
         and ?t1.0 = "built [] (checkout [] env_aws_lines)"]
      env_file_sh src valid build_sh missing_sh
    by blast
  from qa missing m sh show ?thesis
    unfolding v by (simp add: sourceConfig_def SOURCE_CONFIG_def configFile_def)
qed










text \<open>
  A failed invalidation after a successful upload: the Node script warns and ends with
  status 0; the shell script ends at the failed command with its status.
\<close>

lemma deploy_mjs_invalidation_not_fatal:
  assumes "t0 (dir @ ''/.env.aws'') = Some (File content)"
    and "envVars content ''UNIQUE_ID'' = Some u" and "u \<noteq> []"
    and "envVars content ''CLOUDFRONT_DISTRIBUTION_ID'' = Some d" and "d \<noteq> []"
    and "exec build_command penv t0 = (0, t1)"
    and "swap_config_mjs dir ''prod'' t1 = Inr t2"
    and "exec (s3SyncCommand dir (bucketName ''prod'' u)) penv t2 = (0, t3)"
    and "exec (invalidation_command d) penv t3 = (code, t4)" and "code \<noteq> 0"
  shows "status (deploy_mjs exec dir penv (Some ''prod'') t0) = 0
       \<and> ''CloudFront invalidation failed (not critical)''
            \<in> set (printed (deploy_mjs exec dir penv (Some ''prod'') t0))
       \<and> ''Deployment failed!'' \<notin> set (printed (deploy_mjs exec dir penv (Some ''prod'') t0))"
  using assms
  by (simp add: deploy_mjs_def deployment_steps_mjs_def invalidate_mjs_def finish_def
        validEnvironments_def)

lemma deploy_sh_invalidation_fatal:
  assumes "t0 ''.env.aws'' = Some (File content)"
    and "source content (script_start arg1 inherited) = (0, st)"
    and "value_of st ''ENVIRONMENT'' = ''prod''"
    and "value_of st ''CLOUDFRONT_DISTRIBUTION_ID'' \<noteq> []"
    and "exec build_command (child_environment (configured st)) t0 = (0, t1)"
    and "swap_config_sh ''prod'' t1 = Inr t2"
    and "exec (sync_command_sh (bucketName ''prod'' (value_of st ''UNIQUE_ID'')))
           (child_environment (swapping ''prod'' (configured st))) t2 = (0, t3)"
    and "exec (invalidation_command (value_of st ''CLOUDFRONT_DISTRIBUTION_ID''))
           (child_environment (swapping ''prod'' (configured st))) t3 = (code, t4)"
    and "code \<noteq> 0"
  shows "status (deploy_sh exec source escapes arg1 inherited t0) = code
       \<and> last (printed (deploy_sh exec source escapes arg1 inherited t0))
            = ''[4/5] Invalidating CloudFront cache...''"
  using assms
  by (simp add: deploy_sh_def deployment_steps_sh_def invalidate_sh_def finish_def)

text \<open>
  C7. The claim: when build, substitution and upload succeed and the invalidation
  fails, the production deployment still ends with status 0 and a warning. Under
  \<^verbatim>\<open>set -e\<close> the shell script ends at the failed invalidation with the status of
  that command, 255 here, and never prints the warning; the Node script, on the same
  input, ends with status 0.
\<close>

theorem C7_failed_invalidation_ends_deploy_sh:
  "status (deploy_sh (sample_exec [] ''aws cloudfront'') sample_source sample_escapes ''prod''
      no_variables (checkout [] env_aws_lines)) = 255
   \<and> map fst (calls (deploy_sh (sample_exec [] ''aws cloudfront'') sample_source
      sample_escapes ''prod'' no_variables (checkout [] env_aws_lines)))
     = [build_command, sync_command_sh ''angular-deploy-prod-abc123'',
        invalidation_command ''E2EXAMPLE'']
   \<and> last (printed (deploy_sh (sample_exec [] ''aws cloudfront'') sample_source
      sample_escapes ''prod'' no_variables (checkout [] env_aws_lines)))
     = ''[4/5] Invalidating CloudFront cache...''
   \<and> status (deploy_mjs (sample_exec ''/repo/'' ''aws cloudfront'') ''/repo'' no_variables
      (Some ''prod'') (checkout ''/repo/'' env_aws_lines)) = 0"
  by (simp add: sh_defs mjs_defs path_defs parse_defs deploy_scenarios state_defs)












text \<open>
  Without the operator file, or without \<open>UNIQUE_ID\<close> in it, the Node script ends with
  status 1 before anything is started; so does the shell script without the file.
\<close>

lemma deploy_mjs_requires_UNIQUE_ID:
  assumes "t0 (dir @ ''/.env.aws'') = None
     \<or> (\<exists>content. t0 (dir @ ''/.env.aws'') = Some (File content)
           \<and> (envVars content ''UNIQUE_ID'' = None \<or> envVars content ''UNIQUE_ID'' = Some []))"
  shows "status (deploy_mjs exec dir penv argv2 t0) = 1
       \<and> calls (deploy_mjs exec dir penv argv2 t0) = []
       \<and> files (deploy_mjs exec dir penv argv2 t0) = t0"
  using assms by (auto simp: deploy_mjs_def finish_def split: option.splits)

lemma deploy_sh_requires_env_file:
  assumes "t0 ''.env.aws'' = None"
  shows "status (deploy_sh exec source escapes arg1 inherited t0) = 1
       \<and> calls (deploy_sh exec source escapes arg1 inherited t0) = []
       \<and> files (deploy_sh exec source escapes arg1 inherited t0) = t0"
  using assms by (simp add: deploy_sh_def finish_def)

text \<open>
  C10. The claim: without \<open>UNIQUE_ID\<close> in \<^verbatim>\<open>.env.aws\<close> the deployment ends with an
  error before the build. For an operator file that holds a comment only, the shell
  script runs the build and uploads to the bucket \<open>angular-deploy-dev-\<close>; the Node
  script, on the same input, ends with status 1 and starts nothing.
\<close>

theorem C10_deploy_sh_builds_without_UNIQUE_ID:
  "envVars (join_with [CHR 0x0A] [''# AWS settings'']) ''UNIQUE_ID'' = None
   \<and> status (deploy_sh (sample_exec [] []) sample_source sample_escapes ''dev'' no_variables
        (checkout [] [''# AWS settings''])) = 0
   \<and> map fst (calls (deploy_sh (sample_exec [] []) sample_source sample_escapes ''dev''
        no_variables (checkout [] [''# AWS settings''])))
     = [build_command, sync_command_sh ''angular-deploy-dev-'']
   \<and> status (deploy_mjs (sample_exec ''/repo/'' []) ''/repo'' no_variables (Some ''dev'')
        (checkout ''/repo/'' [''# AWS settings''])) = 1
   \<and> calls (deploy_mjs (sample_exec ''/repo/'' []) ''/repo'' no_variables (Some ''dev'')
        (checkout ''/repo/'' [''# AWS settings''])) = []"
  by (simp add: sh_defs mjs_defs path_defs parse_defs deploy_scenarios state_defs)

end
